theory Spec2Isabelle
  imports Complex_Main "HOL-Library.Log_Nat"
begin

section \<open>Data model\<close>

text \<open>
  The platform keeps its state in SQL tables and computes with JavaScript numbers.
  Tables are modelled as lists of rows in insertion order, Unix timestamps as integers
  and row ids as naturals.  A JavaScript number is modelled by the rational it denotes
  (infinities and NaN are left out).  Comparisons of numbers are exact.  The sum that
  decides whether a bid is accepted, \<open>currentBid + increment\<close> in
  \<open>getMinimumNextBid\<close>, is rounded to the nearest double as the language does,
  see \<open>js_add\<close> below.  The other sums and products (the amounts of the proxy
  resolution, the invoice amounts) are written exact: no branch depends on them, and
  the stored value is the nearest double of the one given here.  A column
  that may be NULL is an \<open>option\<close>.  JavaScript tests such as \<open>if (x)\<close> or
  \<open>x || null\<close> treat both a missing value and the number zero as false; the
  functions below make that test explicit.
\<close>

definition truthy :: "rat option \<Rightarrow> bool" where
  "truthy x = (case x of None \<Rightarrow> False | Some v \<Rightarrow> v \<noteq> 0)"

definition truthy_id :: "nat option \<Rightarrow> bool" where
  "truthy_id x = (case x of None \<Rightarrow> False | Some v \<Rightarrow> v \<noteq> 0)"

text \<open>\<open>x || null\<close> on a nullable number.\<close>

definition or_null :: "rat option \<Rightarrow> rat option" where
  "or_null x = (if truthy x then x else None)"

text \<open>
  A TEXT column holding JSON, as \<open>parseJSON\<close> of \<open>utils/db.ts\<close> sees it: null or the
  empty string, a text that \<open>JSON.parse\<close> rejects, or a text that parses to a value.
\<close>

datatype 'a json_text = JNull | JInvalid | JValue 'a

definition parseJSON :: "'a json_text \<Rightarrow> 'a \<Rightarrow> 'a" where
  "parseJSON json defaultValue =
     (case json of JNull \<Rightarrow> defaultValue | JInvalid \<Rightarrow> defaultValue | JValue v \<Rightarrow> v)"

record IncrementRule =
  rule_min :: rat
  rule_max :: "rat option"
  increment :: rat

record BuyersPremiumRule =
  prem_min :: rat
  prem_max :: "rat option"
  rate :: rat

datatype LotStatus = pending | active | closed | sold | unsold | withdrawn

datatype BidType = manual | proxy_auto

datatype BidStatus = bid_active | bid_outbid | bid_winning | bid_won | bid_lost | bid_cancelled

datatype BidAuditEventType =
    bid_placed | bid_rejected | proxy_triggered | outbid_occurred
  | soft_close_triggered | lot_closed | bid_cancelled_event | reserve_met_event
  | buy_now_executed

record Auction =
  auction_ident :: nat
  increment_rules :: "IncrementRule list json_text"
  soft_close_enabled :: bool
  soft_close_trigger_minutes :: int
  soft_close_extension_minutes :: int

record Lot =
  lot_ident :: nat
  auction_id :: nat
  lot_number :: nat
  starting_bid :: rat
  reserve_price :: "rat option"
  reserve_met :: bool
  increment_override :: "IncrementRule list json_text"
  current_bid :: rat
  current_bidder_id :: "nat option"
  bid_count :: nat
  original_close_time :: "int option"
  current_close_time :: "int option"
  extension_count :: nat
  status :: LotStatus
  updated_at :: int
  closed_at :: "int option"

record Bid =
  lot_id :: nat
  bidder_id :: "nat option"
  amount :: rat
  bid_type :: BidType
  max_bid :: "rat option"
  is_max_bid_active :: bool
  is_winning :: bool
  was_outbid :: bool
  outbid_at :: "int option"
  previous_bid_amount :: rat
  previous_bidder_id :: "nat option"
  bid_status :: BidStatus

record BidAuditLog =
  event_type :: BidAuditEventType
  audit_lot_id :: nat
  audit_auction_id :: nat
  audit_bidder_id :: "nat option"
  previous_amount :: "rat option"
  new_amount :: "rat option"
  result_code :: string

record db =
  auctions :: "Auction list"
  lots :: "Lot list"
  bids :: "Bid list"
  bid_audit_log :: "BidAuditLog list"

section \<open>JavaScript number addition\<close>

text \<open>
  \<open>ilog2 x\<close> is the binary exponent of a positive rational: the integer \<open>e\<close> with
  \<open>2^e \<le> x < 2^(e+1)\<close>.  It is computed from the bit lengths of numerator and
  denominator, which fix \<open>e\<close> up to one.
\<close>

definition ilog2 :: "rat \<Rightarrow> int" where
  "ilog2 x =
     (case quotient_of x of (p, q) \<Rightarrow>
        (let k = int (floorlog 2 (nat p)) - int (floorlog 2 (nat q))
         in if 2 powi k \<le> x then k else k - 1))"

text \<open>Rounding to the nearest integer, a tie going to the even neighbour.\<close>

definition round_half_even :: "rat \<Rightarrow> int" where
  "round_half_even y =
     (let f = \<lfloor>y\<rfloor>; r = y - of_int f
      in if r < 1 / 2 then f else if 1 / 2 < r then f + 1 else if even f then f else f + 1)"

text \<open>
  The IEEE 754 binary64 value nearest to \<open>x\<close> (round to nearest, ties to even): 53
  significant bits, so the spacing at exponent \<open>e\<close> is \<open>2^(e - 52)\<close>; below
  \<open>2^(-1022)\<close> the spacing stays \<open>2^(-1074)\<close>.  Overflow to infinity (from
  \<open>2^1024\<close> on) is not modelled.
\<close>

definition round_double :: "rat \<Rightarrow> rat" where
  "round_double x =
     (if x = 0 then 0
      else (let a = \<bar>x\<bar>; e = max (ilog2 a) (- 1022); u = 2 powi (e - 52)
            in sgn x * (of_int (round_half_even (a / u)) * u)))"

text \<open>\<open>x + y\<close> on two numbers: the exact sum, rounded.\<close>

definition js_add :: "rat \<Rightarrow> rat \<Rightarrow> rat" where
  "js_add x y = round_double (x + y)"

section \<open>Rules (utils/db.ts)\<close>

definition rule_applies :: "rat \<Rightarrow> IncrementRule \<Rightarrow> bool" where
  "rule_applies currentBid rule =
     (currentBid \<ge> rule_min rule \<and>
      (case rule_max rule of None \<Rightarrow> True | Some m \<Rightarrow> currentBid < m))"

fun calculateBidIncrement :: "rat \<Rightarrow> IncrementRule list \<Rightarrow> rat" where
  "calculateBidIncrement currentBid [] = 1"
| "calculateBidIncrement currentBid (rule # rules) =
     (if rule_applies currentBid rule then increment rule
      else calculateBidIncrement currentBid rules)"

definition getMinimumNextBid :: "rat \<Rightarrow> IncrementRule list \<Rightarrow> rat" where
  "getMinimumNextBid currentBid incrementRules =
     (let inc = calculateBidIncrement currentBid incrementRules in js_add currentBid inc)"

definition premium_applies :: "rat \<Rightarrow> BuyersPremiumRule \<Rightarrow> bool" where
  "premium_applies amt rule =
     (amt \<ge> prem_min rule \<and>
      (case prem_max rule of None \<Rightarrow> True | Some m \<Rightarrow> amt < m))"

fun calculateBuyersPremium :: "rat \<Rightarrow> BuyersPremiumRule list \<Rightarrow> rat" where
  "calculateBuyersPremium amt [] = 0"
| "calculateBuyersPremium amt (rule # rules) =
     (if premium_applies amt rule then amt * rate rule
      else calculateBuyersPremium amt rules)"

section \<open>Store access\<close>

text \<open>\<open>SELECT * FROM lots WHERE id = ?\<close> through \<open>queryOne\<close>: the first row, or null.\<close>

definition select_lot :: "db \<Rightarrow> nat \<Rightarrow> Lot option" where
  "select_lot d lotId = find (\<lambda>l. lot_ident l = lotId) (lots d)"

definition select_auction :: "db \<Rightarrow> nat \<Rightarrow> Auction option" where
  "select_auction d auctionId = find (\<lambda>a. auction_ident a = auctionId) (auctions d)"

text \<open>
  The statements that \<open>executeBidTransaction\<close> collects in its \<open>queries\<close> array, one
  constructor for each SQL text of the source, with the bound parameters as arguments.
\<close>

datatype query =
    InsertBid Bid
  | UpdateLotBid nat rat "nat option" nat int
  | MarkOutbid int nat "nat option" bool
  | InsertAudit BidAuditLog

text \<open>
  \<open>UpdateLotBid lotId amt bidder k now\<close> is
  \<open>UPDATE lots SET current_bid = amt, [current_bidder_id = bidder,] bid_count = bid_count + k,
  reserve_met = CASE WHEN reserve_price IS NOT NULL AND amt >= reserve_price THEN 1 ELSE
  reserve_met END, updated_at = now WHERE id = lotId\<close>; the bidder column is assigned
  only when \<open>bidder\<close> is given.
\<close>

definition update_lot_row :: "rat \<Rightarrow> nat option \<Rightarrow> nat \<Rightarrow> int \<Rightarrow> Lot \<Rightarrow> Lot" where
  "update_lot_row amt bidder k t l =
     l\<lparr> current_bid := amt,
        current_bidder_id := (case bidder of None \<Rightarrow> current_bidder_id l | Some b \<Rightarrow> Some b),
        bid_count := bid_count l + k,
        reserve_met := (case reserve_price l of
                          None \<Rightarrow> reserve_met l
                        | Some r \<Rightarrow> (if amt \<ge> r then True else reserve_met l)),
        updated_at := t \<rparr>"

text \<open>
  \<open>MarkOutbid now lotId bidder deactivate\<close> is
  \<open>UPDATE bids SET status = 'outbid', is_winning = 0, was_outbid = 1, outbid_at = now
  [, is_max_bid_active = 0] WHERE lot_id = lotId AND bidder_id = bidder AND is_winning = 1\<close>.
  A NULL \<open>bidder\<close> parameter matches no row.
\<close>

definition winning_row_of :: "nat \<Rightarrow> nat option \<Rightarrow> Bid \<Rightarrow> bool" where
  "winning_row_of lotId bidder b =
     (lot_id b = lotId \<and> bidder \<noteq> None \<and> bidder_id b = bidder \<and> is_winning b)"

definition mark_outbid_row :: "int \<Rightarrow> bool \<Rightarrow> Bid \<Rightarrow> Bid" where
  "mark_outbid_row t deactivate b =
     b\<lparr> bid_status := bid_outbid, is_winning := False, was_outbid := True,
        outbid_at := Some t,
        is_max_bid_active := (if deactivate then False else is_max_bid_active b) \<rparr>"

fun run_query :: "query \<Rightarrow> db \<Rightarrow> db" where
  "run_query (InsertBid b) d = d\<lparr> bids := bids d @ [b] \<rparr>"
| "run_query (UpdateLotBid lotId amt bidder k t) d =
     d\<lparr> lots := map (\<lambda>l. if lot_ident l = lotId then update_lot_row amt bidder k t l else l)
                    (lots d) \<rparr>"
| "run_query (MarkOutbid t lotId bidder deactivate) d =
     d\<lparr> bids := map (\<lambda>b. if winning_row_of lotId bidder b then mark_outbid_row t deactivate b
                         else b) (bids d) \<rparr>"
| "run_query (InsertAudit a) d = d\<lparr> bid_audit_log := bid_audit_log d @ [a] \<rparr>"

text \<open>\<open>transaction\<close>: the batch runs the statements in order.\<close>

definition transaction :: "db \<Rightarrow> query list \<Rightarrow> db" where
  "transaction d queries = fold run_query queries d"

section \<open>Bidding engine (services/bidding-engine)\<close>

text \<open>
  \<open>BidResult\<close> with the fields that \<open>error\<close> may spread into it (\<open>minimumBid\<close>,
  \<open>currentBid\<close>, \<open>proxyTriggered\<close>).  The human-readable message is left out.
\<close>

record BidResult =
  success :: bool
  code :: string
  result_lot :: "Lot option"
  outbidOccurred :: "bool option"
  proxyBidTriggered :: "bool option"
  minimumBid :: "rat option"
  currentBid :: "rat option"
  proxyTriggered :: "bool option"

definition error :: "string \<Rightarrow> BidResult" where
  "error c = \<lparr> success = False, code = c, result_lot = None, outbidOccurred = None,
               proxyBidTriggered = None, minimumBid = None, currentBid = None,
               proxyTriggered = None \<rparr>"

definition createAuditLog ::
  "BidAuditEventType \<Rightarrow> Lot \<Rightarrow> nat option \<Rightarrow> rat option \<Rightarrow> rat option \<Rightarrow> string \<Rightarrow> query" where
  "createAuditLog eventType lot bidderId newAmount previousAmount resultCode =
     InsertAudit \<lparr> event_type = eventType, audit_lot_id = lot_ident lot,
                   audit_auction_id = auction_id lot, audit_bidder_id = bidderId,
                   previous_amount = previousAmount, new_amount = newAmount,
                   result_code = resultCode \<rparr>"

text \<open>
  \<open>getActiveMaxBid\<close>: \<open>SELECT max_bid FROM bids WHERE lot_id = ? AND bidder_id = ? AND
  is_max_bid_active = 1 ORDER BY created_at DESC LIMIT 1\<close>, then \<open>bid?.max_bid || null\<close>.
  Rows are kept in insertion order, so the latest row is the last one that matches.
\<close>

definition getActiveMaxBid :: "db \<Rightarrow> nat \<Rightarrow> nat \<Rightarrow> rat option" where
  "getActiveMaxBid d lotId bidderId =
     (case filter (\<lambda>b. lot_id b = lotId \<and> bidder_id b = Some bidderId \<and> is_max_bid_active b)
             (rev (bids d)) of
        [] \<Rightarrow> None
      | b # _ \<Rightarrow> or_null (max_bid b))"

definition default_increment_rules :: "IncrementRule list" where
  "default_increment_rules =
     [\<lparr> rule_min = 0, rule_max = Some 100, increment = 5 \<rparr>,
      \<lparr> rule_min = 100, rule_max = Some 500, increment = 10 \<rparr>,
      \<lparr> rule_min = 500, rule_max = None, increment = 25 \<rparr>]"

text \<open>
  \<open>getIncrementRules\<close>: a non-empty override text on the lot is parsed with the empty
  list as fallback; otherwise the auction's text is parsed with the default tiers as
  fallback (also when the auction row is missing).
\<close>

definition getIncrementRules :: "db \<Rightarrow> Lot \<Rightarrow> IncrementRule list" where
  "getIncrementRules d lot =
     (if increment_override lot \<noteq> JNull then parseJSON (increment_override lot) []
      else parseJSON (case select_auction d (auction_id lot) of
                        None \<Rightarrow> JNull
                      | Some a \<Rightarrow> increment_rules a) default_increment_rules)"

definition new_bid ::
  "Lot \<Rightarrow> nat option \<Rightarrow> rat \<Rightarrow> BidType \<Rightarrow> rat option \<Rightarrow> bool \<Rightarrow> bool \<Rightarrow> BidStatus \<Rightarrow> Bid" where
  "new_bid lot bidder amt ty mx act win st =
     \<lparr> lot_id = lot_ident lot, bidder_id = bidder, amount = amt, bid_type = ty,
       max_bid = mx, is_max_bid_active = act, is_winning = win, was_outbid = False,
       outbid_at = None, previous_bid_amount = current_bid lot,
       previous_bidder_id = current_bidder_id lot, bid_status = st \<rparr>"

text \<open>The tail of \<open>executeBidTransaction\<close>: run the batch, re-read the lot, report success.\<close>

definition commit_bid :: "db \<Rightarrow> Lot \<Rightarrow> query list \<Rightarrow> bool \<Rightarrow> bool \<Rightarrow> db \<times> BidResult" where
  "commit_bid d lot queries proxyTrig outbid =
     (let d' = transaction d queries in
      (d', \<lparr> success = True, code = ''BID_SUCCESS'',
             result_lot = select_lot d' (lot_ident lot),
             outbidOccurred = Some outbid, proxyBidTriggered = Some proxyTrig,
             minimumBid = None, currentBid = None, proxyTriggered = None \<rparr>))"

text \<open>
  \<open>executeBidTransaction\<close>.  \<open>t\<close> is the reading of \<open>now()\<close>.  The three scenarios of
  the source keep their order; the tie branch and the branch in which the incumbent's
  proxy defends both leave through \<open>return this.error(...)\<close>, before the statement
  \<open>await transaction(this.db, queries)\<close> is reached.
\<close>

definition executeBidTransaction ::
  "db \<Rightarrow> int \<Rightarrow> Lot \<Rightarrow> nat \<Rightarrow> rat \<Rightarrow> rat option \<Rightarrow> rat option \<Rightarrow> IncrementRule list
     \<Rightarrow> db \<times> BidResult" where
  "executeBidTransaction d t lot bidderId bidAmount maxBid currentHighBidderMaxBid incrementRules =
     (case or_null currentHighBidderMaxBid of
        None \<Rightarrow>
          (let finalBidAmount = bidAmount;
               queries =
                 [InsertBid (new_bid lot (Some bidderId) finalBidAmount manual (or_null maxBid)
                               (truthy maxBid) True bid_winning),
                  UpdateLotBid (lot_ident lot) finalBidAmount (Some bidderId) 1 t]
                 @ (if truthy_id (current_bidder_id lot)
                    then [MarkOutbid t (lot_ident lot) (current_bidder_id lot) False] else [])
                 @ [createAuditLog bid_placed lot (Some bidderId) (Some finalBidAmount)
                      (Some (current_bid lot)) ''success'']
           in commit_bid d lot queries False (truthy_id (current_bidder_id lot)))
      | Some hmax \<Rightarrow>
          (let inc = calculateBidIncrement (current_bid lot) incrementRules in
           case or_null maxBid of
             None \<Rightarrow>
               (let finalBidAmount = bidAmount + inc;
                    queries =
                      [InsertBid (new_bid lot (Some bidderId) bidAmount manual None
                                    False False bid_outbid),
                       InsertBid (new_bid lot (current_bidder_id lot) finalBidAmount proxy_auto
                                    (Some hmax) True True bid_winning),
                       UpdateLotBid (lot_ident lot) finalBidAmount None 2 t,
                       createAuditLog bid_placed lot (Some bidderId) (Some bidAmount)
                         (Some (current_bid lot)) ''outbid'',
                       createAuditLog proxy_triggered lot (current_bidder_id lot)
                         (Some finalBidAmount) (Some (current_bid lot)) ''success'']
                in (d, (error ''OUTBID_BY_PROXY'')
                         \<lparr> currentBid := Some finalBidAmount, proxyTriggered := Some True \<rparr>))
           | Some mx \<Rightarrow>
               (if mx > hmax then
                  (let finalBidAmount = min mx (hmax + inc);
                       queries =
                         [InsertBid (new_bid lot (Some bidderId) finalBidAmount manual (Some mx)
                                       True True bid_winning),
                          InsertBid (new_bid lot (current_bidder_id lot) hmax proxy_auto
                                       (Some hmax) False False bid_outbid),
                          UpdateLotBid (lot_ident lot) finalBidAmount (Some bidderId) 2 t,
                          MarkOutbid t (lot_ident lot) (current_bidder_id lot) True,
                          createAuditLog proxy_triggered lot (current_bidder_id lot)
                            (Some hmax) (Some (current_bid lot)) ''outbid'',
                          createAuditLog bid_placed lot (Some bidderId) (Some finalBidAmount)
                            (Some hmax) ''success'']
                   in commit_bid d lot queries True True)
                else if mx = hmax then (d, error ''MAX_BID_TIED'')
                else
                  (let finalBidAmount = min hmax (mx + inc);
                       queries =
                         [InsertBid (new_bid lot (Some bidderId) mx manual (Some mx)
                                       False False bid_outbid),
                          InsertBid (new_bid lot (current_bidder_id lot) finalBidAmount
                                       proxy_auto (Some hmax) True True bid_winning),
                          UpdateLotBid (lot_ident lot) finalBidAmount None 2 t,
                          createAuditLog bid_placed lot (Some bidderId) (Some mx)
                            (Some (current_bid lot)) ''outbid'',
                          createAuditLog proxy_triggered lot (current_bidder_id lot)
                            (Some finalBidAmount) (Some (current_bid lot)) ''success'']
                   in (d, (error ''OUTBID_BY_PROXY'')
                            \<lparr> currentBid := Some finalBidAmount,
                              proxyTriggered := Some True \<rparr>)))))"

text \<open>
  \<open>checkSoftClose\<close>, called with the lot as it was read before the transaction and the
  time read at the start of \<open>placeBid\<close>.
\<close>

definition checkSoftClose :: "db \<Rightarrow> Lot \<Rightarrow> int \<Rightarrow> db" where
  "checkSoftClose d lot currentTime =
     (case current_close_time lot of
        None \<Rightarrow> d
      | Some closeTime \<Rightarrow>
          if closeTime = 0 then d
          else
            (case select_auction d (auction_id lot) of
               None \<Rightarrow> d
             | Some auction \<Rightarrow>
                 if \<not> soft_close_enabled auction then d
                 else
                   (let timeUntilClose = closeTime - currentTime;
                        triggerSeconds = soft_close_trigger_minutes auction * 60 in
                    if timeUntilClose \<le> triggerSeconds then
                      (let extensionSeconds = soft_close_extension_minutes auction * 60;
                           newCloseTime = currentTime + extensionSeconds in
                       d\<lparr> lots := map (\<lambda>l. if lot_ident l = lot_ident lot
                                            then l\<lparr> current_close_time := Some newCloseTime,
                                                   extension_count := extension_count l + 1,
                                                   updated_at := currentTime \<rparr>
                                            else l) (lots d),
                          bid_audit_log := bid_audit_log d @
                            [\<lparr> event_type = soft_close_triggered,
                               audit_lot_id = lot_ident lot,
                               audit_auction_id = auction_id lot,
                               audit_bidder_id = None,
                               previous_amount = Some (of_int closeTime),
                               new_amount = Some (of_int newCloseTime),
                               result_code = ''extended'' \<rparr>] \<rparr>)
                    else d)))"

text \<open>
  The floor that \<open>placeBid\<close> compares the amount with.
\<close>

definition minimum_bid :: "Lot \<Rightarrow> IncrementRule list \<Rightarrow> rat" where
  "minimum_bid lot incrementRules =
     (if current_bid lot > 0 then getMinimumNextBid (current_bid lot) incrementRules
      else starting_bid lot)"

text \<open>
  \<open>lot.current_bidder_id ? await this.getActiveMaxBid(lotId, lot.current_bidder_id) : null\<close>
\<close>

definition highBidderMaxBid :: "db \<Rightarrow> nat \<Rightarrow> Lot \<Rightarrow> rat option" where
  "highBidderMaxBid d lotId lot =
     (case current_bidder_id lot of
        None \<Rightarrow> None
      | Some hb \<Rightarrow> if hb = 0 then None else getActiveMaxBid d lotId hb)"

text \<open>
  \<open>placeBid\<close>.  \<open>t\<close> is the server clock; every \<open>now()\<close> of one call reads the same
  second.  A rejection is the value \<open>this.error(code, ...)\<close> and nothing else: the
  source has no statement that writes a \<open>bid_rejected\<close> row.  The soft-close check
  follows every return of \<open>executeBidTransaction\<close>.  Store failures (the \<open>catch\<close>
  branch, \<open>BID_FAILED\<close>) are outside the model.
\<close>

definition placeBid :: "db \<Rightarrow> int \<Rightarrow> nat \<Rightarrow> nat \<Rightarrow> rat \<Rightarrow> rat option \<Rightarrow> db \<times> BidResult" where
  "placeBid d t lotId bidderId amt maxBid =
     (if amt \<le> 0 then (d, error ''INVALID_AMOUNT'')
      else if (case or_null maxBid of None \<Rightarrow> False | Some mx \<Rightarrow> mx < amt)
        then (d, error ''INVALID_MAX_BID'')
      else
        (case select_lot d lotId of
           None \<Rightarrow> (d, error ''LOT_NOT_FOUND'')
         | Some lot \<Rightarrow>
             if status lot \<noteq> active then (d, error ''LOT_NOT_ACTIVE'')
             else if (case current_close_time lot of
                        None \<Rightarrow> False
                      | Some c \<Rightarrow> c \<noteq> 0 \<and> t \<ge> c)
               then (d, error ''AUCTION_CLOSED'')
             else
               (let incrementRules = getIncrementRules d lot;
                    minBid = minimum_bid lot incrementRules in
                if amt < minBid then (d, (error ''BID_TOO_LOW'')\<lparr> minimumBid := Some minBid \<rparr>)
                else if current_bidder_id lot = Some bidderId then (d, error ''SELF_OUTBID'')
                else
                  (let currentHighBidderMaxBid = highBidderMaxBid d lotId lot;
                       (d', result) = executeBidTransaction d t lot bidderId amt maxBid
                                        currentHighBidderMaxBid incrementRules
                   in (checkSoftClose d' lot t, result)))))"

section \<open>Closing lots\<close>

text \<open>
  The expression \<open>lot.reserve_price && !lot.reserve_met ? 'unsold' : 'sold'\<close>, which both
  \<open>closeLot\<close> and the auction route \<open>POST /:id/close\<close> use to decide the final status.
\<close>

definition final_status :: "rat option \<Rightarrow> bool \<Rightarrow> LotStatus" where
  "final_status reserve met = (if truthy reserve \<and> \<not> met then unsold else sold)"

definition status_text :: "LotStatus \<Rightarrow> string" where
  "status_text s =
     (case s of pending \<Rightarrow> ''pending'' | active \<Rightarrow> ''active'' | closed \<Rightarrow> ''closed''
      | sold \<Rightarrow> ''sold'' | unsold \<Rightarrow> ''unsold'' | withdrawn \<Rightarrow> ''withdrawn'')"

text \<open>\<open>UPDATE lots SET status = ?, closed_at = ?, updated_at = ? WHERE id = ?\<close>\<close>

definition set_lot_closed :: "nat \<Rightarrow> LotStatus \<Rightarrow> int \<Rightarrow> db \<Rightarrow> db" where
  "set_lot_closed lotId st t d =
     d\<lparr> lots := map (\<lambda>l. if lot_ident l = lotId
                          then l\<lparr> status := st, closed_at := Some t, updated_at := t \<rparr>
                          else l) (lots d) \<rparr>"

text \<open>\<open>UPDATE bids SET status = 'won' WHERE lot_id = ? AND bidder_id = ? AND is_winning = 1\<close>\<close>

definition mark_won :: "nat \<Rightarrow> nat option \<Rightarrow> db \<Rightarrow> db" where
  "mark_won lotId bidder d =
     d\<lparr> bids := map (\<lambda>b. if winning_row_of lotId bidder b then b\<lparr> bid_status := bid_won \<rparr>
                         else b) (bids d) \<rparr>"

text \<open>\<open>UPDATE bids SET status = 'lost' WHERE lot_id = ? AND status NOT IN ('won', 'cancelled')\<close>\<close>

definition mark_lost :: "nat \<Rightarrow> db \<Rightarrow> db" where
  "mark_lost lotId d =
     d\<lparr> bids := map (\<lambda>b. if lot_id b = lotId \<and> bid_status b \<noteq> bid_won
                              \<and> bid_status b \<noteq> bid_cancelled
                          then b\<lparr> bid_status := bid_lost \<rparr> else b) (bids d) \<rparr>"

text \<open>\<open>BiddingEngine.closeLot\<close>; \<open>t\<close> is the reading of \<open>now()\<close>.\<close>

definition closeLot :: "db \<Rightarrow> int \<Rightarrow> nat \<Rightarrow> db" where
  "closeLot d t lotId =
     (case select_lot d lotId of
        None \<Rightarrow> d
      | Some lot \<Rightarrow>
          (let st = final_status (reserve_price lot) (reserve_met lot);
               d1 = set_lot_closed lotId st t d;
               d2 = (if truthy_id (current_bidder_id lot) \<and> st = sold
                     then mark_won lotId (current_bidder_id lot) d1 else d1);
               d3 = mark_lost lotId d2
           in d3\<lparr> bid_audit_log := bid_audit_log d3 @
                    [\<lparr> event_type = lot_closed, audit_lot_id = lot_ident lot,
                       audit_auction_id = auction_id lot,
                       audit_bidder_id = current_bidder_id lot,
                       previous_amount = None, new_amount = Some (current_bid lot),
                       result_code = status_text st \<rparr>] \<rparr>))"

text \<open>
  The loop of the route \<open>POST /api/auctions/:id/close\<close> over the rows of
  \<open>SELECT ... FROM lots WHERE auction_id = ? AND status = 'active'\<close>.
\<close>

definition close_route_lot :: "int \<Rightarrow> Lot \<Rightarrow> db \<Rightarrow> db" where
  "close_route_lot t lot d =
     (let st = final_status (reserve_price lot) (reserve_met lot);
          d1 = set_lot_closed (lot_ident lot) st t d;
          d2 = (if truthy_id (current_bidder_id lot) \<and> st = sold
                then mark_won (lot_ident lot) (current_bidder_id lot) d1 else d1)
      in mark_lost (lot_ident lot) d2)"

definition close_route_lots :: "db \<Rightarrow> int \<Rightarrow> nat \<Rightarrow> db" where
  "close_route_lots d t auctionId =
     fold (close_route_lot t)
       (filter (\<lambda>l. auction_id l = auctionId \<and> status l = active) (lots d)) d"

section \<open>Invoices (services/invoice)\<close>

record WinningLot =
  win_lot_id :: nat
  win_lot_number :: nat
  win_current_bid :: rat
  lot_shipping :: bool

record InvoiceItem =
  item_lot_id :: nat
  item_lot_number :: nat
  winning_bid :: rat
  buyers_premium_rate :: rat
  buyers_premium_amount :: rat
  tax_rate :: rat
  tax_amount :: rat
  shipping_amount :: rat
  line_total :: rat

record Invoice =
  subtotal :: rat
  buyers_premium :: rat
  tax :: rat
  shipping :: rat
  total :: rat
  line_items :: "InvoiceItem list"

text \<open>The inner loop that looks the rate up: the first tier that applies, else 0.\<close>

fun applicable_rate :: "rat \<Rightarrow> BuyersPremiumRule list \<Rightarrow> rat" where
  "applicable_rate winningBid [] = 0"
| "applicable_rate winningBid (rule # rules) =
     (if premium_applies winningBid rule then rate rule
      else applicable_rate winningBid rules)"

text \<open>The body of the loop \<open>for (const lot of lots)\<close>: the line item of one lot.\<close>

definition line_item :: "BuyersPremiumRule list \<Rightarrow> bool \<Rightarrow> rat \<Rightarrow> bool \<Rightarrow> WinningLot \<Rightarrow> InvoiceItem" where
  "line_item buyersPremiumRules taxEnabled taxRate shippingAvailable lot =
     (let winningBid = win_current_bid lot;
          buyersPremium = calculateBuyersPremium winningBid buyersPremiumRules;
          buyersPremiumRate = applicable_rate winningBid buyersPremiumRules;
          taxAmount = (if taxEnabled then (winningBid + buyersPremium) * taxRate else 0);
          shippingAmount = (if lot_shipping lot \<and> shippingAvailable then 0 else 0);
          lineTotal = winningBid + buyersPremium + taxAmount + shippingAmount
      in \<lparr> item_lot_id = win_lot_id lot, item_lot_number = win_lot_number lot,
           winning_bid = winningBid, buyers_premium_rate = buyersPremiumRate,
           buyers_premium_amount = buyersPremium, tax_rate = taxRate,
           tax_amount = taxAmount, shipping_amount = shippingAmount,
           line_total = lineTotal \<rparr>)"

text \<open>
  The loop with its four running sums and the list of line items; the accumulator is
  \<open>(subtotal, totalBuyersPremium, totalTax, totalShipping, lineItems)\<close>.
\<close>

fun invoice_loop ::
  "BuyersPremiumRule list \<Rightarrow> bool \<Rightarrow> rat \<Rightarrow> bool \<Rightarrow> WinningLot list
     \<Rightarrow> rat \<times> rat \<times> rat \<times> rat \<times> InvoiceItem list
     \<Rightarrow> rat \<times> rat \<times> rat \<times> rat \<times> InvoiceItem list" where
  "invoice_loop rules taxEnabled taxRate shippingAvailable [] acc = acc"
| "invoice_loop rules taxEnabled taxRate shippingAvailable (lot # ls) (sub, prem, tx, ship, its) =
     (let it = line_item rules taxEnabled taxRate shippingAvailable lot
      in invoice_loop rules taxEnabled taxRate shippingAvailable ls
           (sub + winning_bid it, prem + buyers_premium_amount it, tx + tax_amount it,
            ship + shipping_amount it, its @ [it]))"

text \<open>
  \<open>generateInvoice\<close>: the invoice row and the item rows that are inserted.  The invoice
  number and the ids are left out.
\<close>

definition generateInvoice ::
  "WinningLot list \<Rightarrow> BuyersPremiumRule list \<Rightarrow> bool \<Rightarrow> rat \<Rightarrow> bool \<Rightarrow> Invoice" where
  "generateInvoice ls buyersPremiumRules taxEnabled taxRate shippingAvailable =
     (case invoice_loop buyersPremiumRules taxEnabled taxRate shippingAvailable ls
             (0, 0, 0, 0, []) of
        (sub, totalBuyersPremium, totalTax, totalShipping, lineItems) \<Rightarrow>
          \<lparr> subtotal = sub, buyers_premium = totalBuyersPremium, tax = totalTax,
            shipping = totalShipping,
            total = sub + totalBuyersPremium + totalTax + totalShipping,
            line_items = lineItems \<rparr>)"

section \<open>Image filename matching (services/import.ts)\<close>

definition is_digit :: "char \<Rightarrow> bool" where
  "is_digit c = (let n = (of_char c :: nat) in 48 \<le> n \<and> n \<le> 57)"

text \<open>Case folding of the \<open>i\<close> flag on ASCII letters.\<close>

definition lower_char :: "char \<Rightarrow> char" where
  "lower_char c =
     (let n = (of_char c :: nat) in if 65 \<le> n \<and> n \<le> 90 then char_of (n + 32) else c)"

text \<open>\<open>parseInt\<close> on a string of decimal digits.\<close>

definition parseInt :: "string \<Rightarrow> nat" where
  "parseInt s = foldl (\<lambda>a c. 10 * a + (of_char c - 48)) 0 s"

definition ends_with :: "string \<Rightarrow> string \<Rightarrow> bool" where
  "ends_with s suf = (length suf \<le> length s \<and> drop (length s - length suf) s = suf)"

text \<open>\<open>filename.replace(/\.(jpg|jpeg|png|gif|webp|heic)$/i, '')\<close>\<close>

definition strip_extension :: "string \<Rightarrow> string" where
  "strip_extension filename =
     (case find (\<lambda>ext. ends_with (map lower_char filename) ext)
             [''.jpg'', ''.jpeg'', ''.png'', ''.gif'', ''.webp'', ''.heic''] of
        None \<Rightarrow> filename
      | Some ext \<Rightarrow> take (length filename - length ext) filename)"

text \<open>
  \<open>^(\d+)[seps](\d+)$\<close>: a non-empty run of digits, one separator out of \<open>seps\<close>, and
  a non-empty run of digits up to the end.
\<close>

definition match_num_sep_num :: "string \<Rightarrow> string \<Rightarrow> (string \<times> string) option" where
  "match_num_sep_num seps s =
     (let a = takeWhile is_digit s in
      case dropWhile is_digit s of
        [] \<Rightarrow> None
      | c # b \<Rightarrow> if a \<noteq> [] \<and> c \<in> set seps \<and> b \<noteq> [] \<and> list_all is_digit b
                 then Some (a, b) else None)"

text \<open>\<open>^lot[_-]?(\d+)[_-](\d+)$\<close> with the \<open>i\<close> flag.\<close>

definition match_lot_pattern :: "string \<Rightarrow> (string \<times> string) option" where
  "match_lot_pattern s =
     (if map lower_char (take 3 s) = ''lot'' then
        (case drop 3 s of
           [] \<Rightarrow> None
         | c # r \<Rightarrow> if c \<in> set ''_-'' then match_num_sep_num ''_-'' r
                    else match_num_sep_num ''_-'' (c # r))
      else None)"

definition parseImageFilename :: "string \<Rightarrow> nat option \<times> nat option" where
  "parseImageFilename filename =
     (let nameWithoutExt = strip_extension filename in
      case List.map_filter (\<lambda>p. p nameWithoutExt)
             [match_num_sep_num ''-'', match_lot_pattern, match_num_sep_num ''_'',
              match_num_sep_num ''.''] of
        [] \<Rightarrow> (None, None)
      | (g1, g2) # _ \<Rightarrow> (Some (parseInt g1), Some (parseInt g2)))"

datatype MatchStatus = matched | unmatched | conflict

record ImageMatchResult =
  filename :: string
  lotNumber :: "nat option"
  photoOrder :: "nat option"
  match_status :: MatchStatus

record ImageMapping =
  import_batch_id :: string
  mapping_filename :: string
  file_url :: string
  parsed_lot_number :: "nat option"
  parsed_photo_order :: "nat option"
  mapping_status :: MatchStatus
  assigned_lot_id :: "nat option"
  assigned_order :: "nat option"

record ImportBatch =
  batch_ident :: string
  batch_auction_id :: nat
  import_type :: string
  batch_status :: string
  total_items :: nat
  successful_items :: nat
  failed_items :: nat

text \<open>The two tables of the import centre.\<close>

record import_tables =
  import_batches :: "ImportBatch list"
  image_mappings :: "ImageMapping list"

text \<open>
  \<open>executeWrite\<close> catches every store error and throws
  \<open>Error('Database operation failed')\<close>.
\<close>

datatype db_error = DatabaseOperationFailed

text \<open>
  \<open>INSERT INTO image_mappings\<close> through \<open>executeWrite\<close>.  The schema declares
  \<open>FOREIGN KEY (import_batch_id) REFERENCES import_batches(id)\<close> and
  \<open>FOREIGN KEY (assigned_lot_id) REFERENCES lots(id)\<close>: the insert fails unless the
  batch row exists and the assigned lot, when given, exists.
\<close>

definition insert_image_mapping :: "db \<Rightarrow> import_tables \<Rightarrow> ImageMapping \<Rightarrow> db_error + import_tables" where
  "insert_image_mapping d st row =
     (if import_batch_id row \<in> set (map batch_ident (import_batches st))
         \<and> (case assigned_lot_id row of
                None \<Rightarrow> True
              | Some i \<Rightarrow> i \<in> set (map lot_ident (lots d)))
      then Inr (st\<lparr> image_mappings := image_mappings st @ [row] \<rparr>)
      else Inl DatabaseOperationFailed)"

text \<open>
  \<open>INSERT INTO import_batches\<close> through \<open>executeWrite\<close>: \<open>id\<close> is the primary key
  and \<open>auction_id\<close> references \<open>auctions(id)\<close>.  The users table is not modelled;
  the uploading user is taken to exist.
\<close>

definition insert_import_batch :: "db \<Rightarrow> import_tables \<Rightarrow> ImportBatch \<Rightarrow> db_error + import_tables" where
  "insert_import_batch d st row =
     (if batch_ident row \<notin> set (map batch_ident (import_batches st))
         \<and> batch_auction_id row \<in> set (map auction_ident (auctions d))
      then Inr (st\<lparr> import_batches := import_batches st @ [row] \<rparr>)
      else Inl DatabaseOperationFailed)"

text \<open>
  \<open>lotMap\<close>: the map from lot number to lot id over the lots of the auction; a later
  row with the same number replaces an earlier one, as \<open>Map.set\<close> does.
\<close>

definition lotMap :: "db \<Rightarrow> nat \<Rightarrow> (nat \<rightharpoonup> nat)" where
  "lotMap d auctionId =
     map_of (rev (map (\<lambda>l. (lot_number l, lot_ident l))
                    (filter (\<lambda>l. auction_id l = auctionId) (lots d))))"

text \<open>
  The decisions of the loop body \<open>for (const image of images)\<close>: the mapping row it
  hands to \<open>executeWrite\<close> and the result it pushes afterwards.  The status is
  \<open>matched\<close> when the parsed lot number is in the map (with a non-zero id) and
  \<open>unmatched\<close> otherwise; earlier images of the batch are not consulted.
\<close>

definition process_image ::
  "(nat \<rightharpoonup> nat) \<Rightarrow> string \<Rightarrow> string \<times> string \<Rightarrow> ImageMapping \<times> ImageMatchResult" where
  "process_image lm batchId img =
     (case parseImageFilename (fst img) of (parsedLot, parsedOrder) \<Rightarrow>
        (case parsedLot of
           Some n \<Rightarrow>
             (if truthy_id (lm n) then
                (\<lparr> import_batch_id = batchId, mapping_filename = fst img, file_url = snd img,
                    parsed_lot_number = Some n, parsed_photo_order = parsedOrder,
                    mapping_status = matched, assigned_lot_id = lm n,
                    assigned_order = parsedOrder \<rparr>,
                 \<lparr> filename = fst img, lotNumber = Some n, photoOrder = parsedOrder,
                    match_status = matched \<rparr>)
              else
                (\<lparr> import_batch_id = batchId, mapping_filename = fst img, file_url = snd img,
                    parsed_lot_number = Some n, parsed_photo_order = parsedOrder,
                    mapping_status = unmatched, assigned_lot_id = None,
                    assigned_order = None \<rparr>,
                 \<lparr> filename = fst img, lotNumber = Some n, photoOrder = parsedOrder,
                    match_status = unmatched \<rparr>))
         | None \<Rightarrow>
             (\<lparr> import_batch_id = batchId, mapping_filename = fst img, file_url = snd img,
                 parsed_lot_number = None, parsed_photo_order = None,
                 mapping_status = unmatched, assigned_lot_id = None,
                 assigned_order = None \<rparr>,
              \<lparr> filename = fst img, lotNumber = None, photoOrder = parsedOrder,
                 match_status = unmatched \<rparr>)))"

text \<open>
  The loop: each image's row is inserted with a statement of its own, so rows written
  before a failing insert stay; the exception of a failing insert leaves the function.
\<close>

fun image_loop ::
  "db \<Rightarrow> (nat \<rightharpoonup> nat) \<Rightarrow> string \<Rightarrow> (string \<times> string) list \<Rightarrow> import_tables
     \<Rightarrow> ImageMatchResult list \<Rightarrow> import_tables \<times> (db_error + ImageMatchResult list)" where
  "image_loop d lm batchId [] st results = (st, Inr results)"
| "image_loop d lm batchId (img # images) st results =
     (case process_image lm batchId img of (row, result) \<Rightarrow>
        (case insert_image_mapping d st row of
           Inl e \<Rightarrow> (st, Inl e)
         | Inr st' \<Rightarrow> image_loop d lm batchId images st' (results @ [result])))"

text \<open>
  \<open>processBulkImages\<close>.  \<open>batchId\<close> is the value of \<open>generateId()\<close>.  The row of
  \<open>import_batches\<close> is inserted after the loop.  The result is the state of the two
  tables and either the thrown error or the returned \<open>{ batchId, results }\<close>.
\<close>

definition processBulkImages ::
  "db \<Rightarrow> import_tables \<Rightarrow> nat \<Rightarrow> string \<Rightarrow> (string \<times> string) list
     \<Rightarrow> import_tables \<times> (db_error + string \<times> ImageMatchResult list)" where
  "processBulkImages d st auctionId batchId images =
     (let lm = lotMap d auctionId in
      case image_loop d lm batchId images st [] of
        (st1, Inl e) \<Rightarrow> (st1, Inl e)
      | (st1, Inr results) \<Rightarrow>
          (let matchedCount = length (filter (\<lambda>r. match_status r = matched) results);
               unmatchedCount = length (filter (\<lambda>r. match_status r = unmatched) results)
           in case insert_import_batch d st1
                     \<lparr> batch_ident = batchId, batch_auction_id = auctionId,
                       import_type = ''images_bulk'',
                       batch_status = (if unmatchedCount > 0 then ''partial'' else ''completed''),
                       total_items = length images, successful_items = matchedCount,
                       failed_items = unmatchedCount \<rparr> of
                Inl e \<Rightarrow> (st1, Inl e)
              | Inr st2 \<Rightarrow> (st2, Inr (batchId, results))))"

section \<open>The rules as the specification words them\<close>

text \<open>
  \<open>min_next_bid(current, starting, rules)\<close> of the specification: if \<open>current = 0\<close>,
  \<open>starting\<close>; else the first tier \<open>{min, max, step}\<close> in list order with
  \<open>min \<le> current < (max ?? \<infinity>)\<close> gives \<open>current + step\<close>, a sum of two numbers of
  the program.  The specification names no result when no tier covers \<open>current\<close>;
  that case is \<open>None\<close> here.
\<close>

definition tier_covers :: "rat \<Rightarrow> IncrementRule \<Rightarrow> bool" where
  "tier_covers current tier =
     (rule_min tier \<le> current \<and>
      (case rule_max tier of None \<Rightarrow> True | Some m \<Rightarrow> current < m))"

definition min_next_bid :: "rat \<Rightarrow> rat \<Rightarrow> IncrementRule list \<Rightarrow> rat option" where
  "min_next_bid current starting rules =
     (if current = 0 then Some starting
      else (case find (tier_covers current) rules of
              None \<Rightarrow> None
            | Some tier \<Rightarrow> Some (js_add current (increment tier))))"

text \<open>
  The effective rules of a lot, as the specification has them: the lot's
  \<open>increment_rules_override\<close> when the lot has one, else the auction's
  \<open>increment_rules\<close>, and the default tiers \<open>{0 to 100: 5}, {100 to 500: 10},
  {500 up: 25}\<close> when the auction stores none.  The specification says nothing about
  a stored text that does not parse or a lot without auction; those are \<open>None\<close>.
\<close>

definition default_tiers :: "IncrementRule list" where
  "default_tiers =
     [\<lparr> rule_min = 0, rule_max = Some 100, increment = 5 \<rparr>,
      \<lparr> rule_min = 100, rule_max = Some 500, increment = 10 \<rparr>,
      \<lparr> rule_min = 500, rule_max = None, increment = 25 \<rparr>]"

definition effective_rules :: "db \<Rightarrow> Lot \<Rightarrow> IncrementRule list option" where
  "effective_rules d lot =
     (case increment_override lot of
        JValue override \<Rightarrow> Some override
      | JInvalid \<Rightarrow> None
      | JNull \<Rightarrow>
          (case find (\<lambda>a. auction_ident a = auction_id lot) (auctions d) of
             None \<Rightarrow> None
           | Some a \<Rightarrow>
               (case increment_rules a of
                  JValue tiers \<Rightarrow> Some tiers
                | JNull \<Rightarrow> Some default_tiers
                | JInvalid \<Rightarrow> None)))"

text \<open>
  The checks of \<open>placeBid\<close> that precede the comparison with the floor: a positive
  amount, a maximum that is not below the amount, an existing lot that is active and
  whose close time has not been reached.
\<close>

definition reaches_floor_check :: "db \<Rightarrow> int \<Rightarrow> nat \<Rightarrow> rat \<Rightarrow> rat option \<Rightarrow> Lot \<Rightarrow> bool" where
  "reaches_floor_check d t lotId amt maxBid lot =
     (amt > 0 \<and> (case or_null maxBid of None \<Rightarrow> True | Some mx \<Rightarrow> amt \<le> mx)
      \<and> select_lot d lotId = Some lot \<and> status lot = active
      \<and> (case current_close_time lot of None \<Rightarrow> True | Some c \<Rightarrow> c = 0 \<or> t < c))"

text \<open>
  Every row of bidder \<open>hb\<close> on the lot whose maximum is still active is a winning row.
\<close>

definition active_max_rows_winning :: "db \<Rightarrow> nat \<Rightarrow> nat \<Rightarrow> bool" where
  "active_max_rows_winning d lotId hb =
     list_all (\<lambda>b. if lot_id b = lotId \<and> bidder_id b = Some hb \<and> is_max_bid_active b
                    then is_winning b else True) (bids d)"

text \<open>Rounding half-up to cents, as the specification asks of the invoice amounts.\<close>

definition round_half_up_cents :: "rat \<Rightarrow> rat" where
  "round_half_up_cents x = of_int \<lfloor>x * 100 + 1 / 2\<rfloor> / 100"

section \<open>States of the end-to-end scenarios\<close>

definition tier10 :: "IncrementRule list" where
  "tier10 = [\<lparr> rule_min = 0, rule_max = None, increment = 10 \<rparr>]"

text \<open>An auction with the single tier \<open>{0+: 10}\<close> and soft close 5 min / 5 min.\<close>

definition auction_a :: Auction where
  "auction_a = \<lparr> auction_ident = 1, increment_rules = JValue tier10,
                 soft_close_enabled = True, soft_close_trigger_minutes = 5,
                 soft_close_extension_minutes = 5 \<rparr>"

text \<open>An auction with the default tiers, a trigger window of 10 min and an extension of 2 min.\<close>

definition auction_b :: Auction where
  "auction_b = \<lparr> auction_ident = 2, increment_rules = JNull,
                 soft_close_enabled = True, soft_close_trigger_minutes = 10,
                 soft_close_extension_minutes = 2 \<rparr>"

text \<open>Lot 12 of auction 1: starting bid 0, no reserve, no bids, closing at second 10000.\<close>

definition lot_fresh :: Lot where
  "lot_fresh = \<lparr> lot_ident = 1, auction_id = 1, lot_number = 12, starting_bid = 0,
                 reserve_price = None, reserve_met = False, increment_override = JNull,
                 current_bid = 0, current_bidder_id = None, bid_count = 0,
                 original_close_time = Some 10000, current_close_time = Some 10000,
                 extension_count = 0, status = active, updated_at = 0, closed_at = None \<rparr>"

definition db_fresh :: db where
  "db_fresh = \<lparr> auctions = [auction_a, auction_b], lots = [lot_fresh], bids = [],
                bid_audit_log = [] \<rparr>"

text \<open>The import tables before the upload: no batch and no mapping.\<close>

definition import_fresh :: import_tables where
  "import_fresh = \<lparr> import_batches = [], image_mappings = [] \<rparr>"

text \<open>The store after bidder 1 has bid 50 with a maximum of 200 at second 100.\<close>

definition db_proxy :: db where
  "db_proxy = fst (placeBid db_fresh 100 1 1 50 (Some 200))"

text \<open>The lot row of that store: bidder 1 is winning at 50.\<close>

definition lot_proxy :: Lot where
  "lot_proxy = lot_fresh\<lparr> current_bid := 50, current_bidder_id := Some 1, bid_count := 1,
                          updated_at := 100 \<rparr>"

text \<open>
  Lot 5 of auction 2: starting bid 100, default tiers, bidder 1 winning at 100 without a
  maximum, closing at second 10000.
\<close>

definition lot_floor :: Lot where
  "lot_floor = \<lparr> lot_ident = 2, auction_id = 2, lot_number = 5, starting_bid = 100,
                 reserve_price = None, reserve_met = False, increment_override = JNull,
                 current_bid = 100, current_bidder_id = Some 1, bid_count = 1,
                 original_close_time = Some 10000, current_close_time = Some 10000,
                 extension_count = 0, status = active, updated_at = 50, closed_at = None \<rparr>"

definition db_floor :: db where
  "db_floor = \<lparr> auctions = [auction_a, auction_b], lots = [lot_floor],
                bids = [\<lparr> lot_id = 2, bidder_id = Some 1, amount = 100, bid_type = manual,
                          max_bid = None, is_max_bid_active = False, is_winning = True,
                          was_outbid = False, outbid_at = None, previous_bid_amount = 0,
                          previous_bidder_id = None, bid_status = bid_winning \<rparr>],
                bid_audit_log = [] \<rparr>"

text \<open>
  The same lot with an override whose tiers \<open>{0 to 50: 5}, {200+: 25}\<close> leave the current
  bid of 100 uncovered.
\<close>

definition gap_tiers :: "IncrementRule list" where
  "gap_tiers = [\<lparr> rule_min = 0, rule_max = Some 50, increment = 5 \<rparr>,
                \<lparr> rule_min = 200, rule_max = None, increment = 25 \<rparr>]"

definition lot_gap :: Lot where
  "lot_gap = lot_floor\<lparr> increment_override := JValue gap_tiers \<rparr>"

definition db_gap :: db where
  "db_gap = db_floor\<lparr> lots := [lot_gap] \<rparr>"

text \<open>
  An auction that stores the same tiers itself, and a lot of it without override,
  bidder 1 winning at 100.
\<close>

definition auction_c :: Auction where
  "auction_c = \<lparr> auction_ident = 3, increment_rules = JValue gap_tiers,
                 soft_close_enabled = True, soft_close_trigger_minutes = 5,
                 soft_close_extension_minutes = 5 \<rparr>"

definition lot_gap_auction :: Lot where
  "lot_gap_auction = lot_floor\<lparr> lot_ident := 4, auction_id := 3 \<rparr>"

definition db_gap_auction :: db where
  "db_gap_auction = \<lparr> auctions = [auction_a, auction_b, auction_c], lots = [lot_gap_auction],
                      bids = map (\<lambda>b. b\<lparr> lot_id := 4 \<rparr>) (bids db_floor),
                      bid_audit_log = [] \<rparr>"

text \<open>
  Amounts in cents.  The double nearest to 118.04 is \<open>8306326562731459 / 2^46\<close>;
  adding 10 to it gives the double \<open>4505007002254050 / 2^45\<close>, which the language
  prints as 128.04000000000002; the double nearest to 128.04 is
  \<open>4505007002254049 / 2^45\<close>.  Lot 3 of auction 1 (tier \<open>{0+: 10}\<close>) has bidder 1
  winning at 118.04.
\<close>

definition d118_04 :: rat where
  "d118_04 = 8306326562731459 / 2 ^ 46"

definition d128_04 :: rat where
  "d128_04 = 4505007002254049 / 2 ^ 45"

definition d128_04_up :: rat where
  "d128_04_up = 4505007002254050 / 2 ^ 45"

definition lot_cents :: Lot where
  "lot_cents = lot_fresh\<lparr> lot_ident := 3, current_bid := d118_04, current_bidder_id := Some 1,
                          bid_count := 1 \<rparr>"

definition db_cents :: db where
  "db_cents = \<lparr> auctions = [auction_a, auction_b], lots = [lot_cents],
                bids = map (\<lambda>b. b\<lparr> lot_id := 3, amount := d118_04 \<rparr>) (bids db_floor),
                bid_audit_log = [] \<rparr>"

text \<open>The five uploads of the image scenario.\<close>

definition scenario_images :: "(string \<times> string) list" where
  "scenario_images =
     [(''12-1.jpg'', ''u1''), (''lot_12_2.PNG'', ''u2''), (''12.3.webp'', ''u3''),
      (''foo.jpg'', ''u4''), (''12-1.jpg'', ''u5'')]"

text \<open>The two winning lots of the invoice scenario and the flat 15 % premium.\<close>

definition scenario_lots :: "WinningLot list" where
  "scenario_lots =
     [\<lparr> win_lot_id = 1, win_lot_number = 1, win_current_bid = 100, lot_shipping = False \<rparr>,
      \<lparr> win_lot_id = 2, win_lot_number = 2, win_current_bid = 25055 / 100,
        lot_shipping = False \<rparr>]"

definition premium15 :: "BuyersPremiumRule list" where
  "premium15 = [\<lparr> prem_min = 0, prem_max = None, rate = 15 / 100 \<rparr>]"

section \<open>Lemmas about number addition and the effective rules\<close>

lemma nat_bits:
  assumes "0 < n"
  shows "(2::rat) powi (int (floorlog 2 n) - 1) \<le> of_nat n \<and> of_nat n < (2::rat) powi int (floorlog 2 n)"
proof -
  from floorlog_bounds [of n 2] assms
  have b: "2 ^ (floorlog 2 n - 1) \<le> n" "n < 2 ^ floorlog 2 n" by simp_all
  have pos: "0 < floorlog 2 n" using assms by (simp add: floorlog_def)
  then have eq: "int (floorlog 2 n) - 1 = int (floorlog 2 n - 1)" by simp
  have "(2::rat) powi (int (floorlog 2 n) - 1) = 2 ^ (floorlog 2 n - 1)"
    unfolding eq by (rule power_int_of_nat)
  moreover have "(2::rat) ^ (floorlog 2 n - 1) \<le> of_nat n"
    using b(1) by (metis of_nat_le_iff of_nat_numeral of_nat_power)
  moreover have "of_nat n < (2::rat) ^ floorlog 2 n"
    using b(2) by (metis of_nat_less_iff of_nat_numeral of_nat_power)
  ultimately show ?thesis by simp
qed

lemma ilog2_bounds:
  assumes "0 < x"
  shows "2 powi ilog2 x \<le> x \<and> x < 2 powi (ilog2 x + 1)"
proof -
  obtain p q where pq: "quotient_of x = (p, q)" by (cases "quotient_of x")
  then have q: "0 < q" and x: "x = of_int p / of_int q"
    by (simp_all add: quotient_of_denom_pos quotient_of_div)
  have p: "0 < p" using assms q x by (simp add: zero_less_divide_iff)
  let ?bp = "int (floorlog 2 (nat p))" and ?bq = "int (floorlog 2 (nat q))"
  let ?k = "?bp - ?bq"
  have P: "(2::rat) powi (?bp - 1) \<le> of_int p" "of_int p < (2::rat) powi ?bp"
    using nat_bits [of "nat p"] p by simp_all
  have Q: "(2::rat) powi (?bq - 1) \<le> of_int q" "of_int q < (2::rat) powi ?bq"
    using nat_bits [of "nat q"] q by simp_all
  have qpos: "(0::rat) < of_int q" using q by simp
  have lower: "2 powi (?k - 1) < x"
  proof -
    have "?k - 1 = ?bp - 1 - ?bq" by simp
    then have "(2::rat) powi (?k - 1) = 2 powi (?bp - 1 - ?bq)" by (rule arg_cong)
    also have "\<dots> = 2 powi (?bp - 1) / 2 powi ?bq"
      by (rule power_int_diff) simp
    also have "\<dots> \<le> of_int p / 2 powi ?bq"
      using P(1) by (intro divide_right_mono) simp_all
    also have "\<dots> < of_int p / of_int q"
      using Q(2) p qpos by (intro divide_strict_left_mono) simp_all
    finally show ?thesis unfolding x .
  qed
  have upper: "x < 2 powi (?k + 1)"
  proof -
    have "x = of_int p / of_int q" by (rule x)
    also have "\<dots> < 2 powi ?bp / of_int q"
      using P(2) qpos by (intro divide_strict_right_mono) simp_all
    also have "\<dots> \<le> 2 powi ?bp / 2 powi (?bq - 1)"
      using Q(1) qpos by (intro divide_left_mono) simp_all
    also have "\<dots> = (2::rat) powi (?bp - (?bq - 1))"
      by (rule power_int_diff [symmetric]) simp
    also have "?bp - (?bq - 1) = ?k + 1" by simp
    finally show ?thesis .
  qed
  show ?thesis
  proof (cases "2 powi ?k \<le> x")
    case True
    then have "ilog2 x = ?k" by (simp add: ilog2_def pq Let_def)
    with True upper show ?thesis by simp
  next
    case False
    then have "ilog2 x = ?k - 1" by (simp add: ilog2_def pq Let_def)
    with False lower show ?thesis by simp
  qed
qed

lemma ilog2_eqI:
  assumes "0 < x" "2 powi e \<le> x" "x < 2 powi (e + 1)"
  shows "ilog2 x = e"
proof (rule ccontr)
  assume ne: "ilog2 x \<noteq> e"
  from ilog2_bounds [OF assms(1)]
  have b: "2 powi ilog2 x \<le> x" "x < 2 powi (ilog2 x + 1)" by simp_all
  show False
  proof (cases "ilog2 x < e")
    case True
    then have "(2::rat) powi (ilog2 x + 1) \<le> 2 powi e"
      by (intro power_int_increasing) simp_all
    with b(2) assms(2) show False by simp
  next
    case False
    with ne have "e + 1 \<le> ilog2 x" by simp
    then have "(2::rat) powi (e + 1) \<le> 2 powi ilog2 x"
      by (intro power_int_increasing) simp_all
    with b(1) assms(3) show False by simp
  qed
qed

lemma round_double_eval:
  assumes "2 powi e \<le> x" "x < 2 powi (e + 1)" "- 1022 \<le> e"
  shows "round_double x = of_int (round_half_even (x / 2 powi (e - 52))) * 2 powi (e - 52)"
proof -
  have pos: "0 < x" using assms(1) by (rule less_le_trans [rotated]) simp
  then have "ilog2 \<bar>x\<bar> = e" using assms by (simp add: ilog2_eqI)
  then show ?thesis using pos assms(3) by (simp add: round_double_def Let_def max_def)
qed


lemma floor_numeral_div: "\<lfloor>numeral a / numeral b :: rat\<rfloor> = numeral a div numeral b"
  using floor_divide_of_int_eq [of "numeral a" "numeral b", where ?'a = rat] by simp

lemma cents_doubles:
  "round_double (11804 / 100) = d118_04"
  "round_double (12804 / 100) = d128_04"
  "round_double (12804000000000002 / 100000000000000) = d128_04_up"
  unfolding d118_04_def d128_04_def d128_04_up_def
  by (subst round_double_eval [where e = 6], simp_all add: round_half_even_def Let_def floor_numeral_div)
     (subst round_double_eval [where e = 7], simp_all add: round_half_even_def Let_def floor_numeral_div)+

lemma js_add_118_04: "js_add d118_04 10 = d128_04_up"
  unfolding js_add_def d118_04_def d128_04_up_def
  by (subst round_double_eval [where e = 7]) (simp_all add: round_half_even_def Let_def floor_numeral_div)

text \<open>
  Two sums of cent amounts as the language computes them: \<open>0.14 + 1\<close> is
  1.1400000000000001, not the double of 1.14, and \<open>0.1 + 0.2\<close> is
  0.30000000000000004.
\<close>

lemma js_add_0_14:
  "round_double (14 / 100) = 1261007895663739 / 2 ^ 53"
  "js_add (1261007895663739 / 2 ^ 53) 1 = 2567051787601183 / 2 ^ 51"
  "round_double (11400000000000001 / 10000000000000000) = 2567051787601183 / 2 ^ 51"
  "round_double (114 / 100) = 5134103575202365 / 2 ^ 52"
  unfolding js_add_def
  by (subst round_double_eval [where e = "- 3"],
      simp_all add: round_half_even_def Let_def floor_numeral_div power_int_minus)
     (subst round_double_eval [where e = 0],
      simp_all add: round_half_even_def Let_def floor_numeral_div power_int_minus)+

lemma js_add_0_1_0_2:
  "round_double (1 / 10) = 3602879701896397 / 2 ^ 55"
  "round_double (2 / 10) = 3602879701896397 / 2 ^ 54"
  "js_add (3602879701896397 / 2 ^ 55) (3602879701896397 / 2 ^ 54) = 1351079888211149 / 2 ^ 52"
  "round_double (30000000000000004 / 100000000000000000) = 1351079888211149 / 2 ^ 52"
  unfolding js_add_def
  apply (subst round_double_eval [where e = "- 4"],
      simp_all add: round_half_even_def Let_def floor_numeral_div power_int_minus)
  apply (subst round_double_eval [where e = "- 3"],
      simp_all add: round_half_even_def Let_def floor_numeral_div power_int_minus)
  apply (subst round_double_eval [where e = "- 2"],
      simp_all add: round_half_even_def Let_def floor_numeral_div power_int_minus)+
  done

lemma getIncrementRules_effective:
  "effective_rules d lot = Some rules \<Longrightarrow> getIncrementRules d lot = rules"
  by (auto simp: effective_rules_def getIncrementRules_def parseJSON_def select_auction_def
        default_tiers_def default_increment_rules_def split: json_text.splits option.splits)

section \<open>Lemmas about the store\<close>

lemma find_lot_map:
  assumes "\<And>l. lot_ident (f l) = lot_ident l"
  shows "find (\<lambda>l. lot_ident l = i) (map (\<lambda>l. if lot_ident l = j then f l else l) ls)
         = map_option (\<lambda>l. if lot_ident l = j then f l else l) (find (\<lambda>l. lot_ident l = i) ls)"
  using assms by (induction ls) auto

lemma select_lot_ident: "select_lot d i = Some l \<Longrightarrow> lot_ident l = i"
  unfolding select_lot_def by (induction "lots d" arbitrary: d) (auto simp: find_Some_iff)

lemma bids_checkSoftClose [simp]: "bids (checkSoftClose d lot t) = bids d"
  by (simp add: checkSoftClose_def Let_def split: option.splits)

lemma auctions_checkSoftClose [simp]: "auctions (checkSoftClose d lot t) = auctions d"
  by (simp add: checkSoftClose_def Let_def split: option.splits)

lemma select_lot_checkSoftClose:
  assumes "select_lot d i = Some l"
  shows "\<exists>l'. select_lot (checkSoftClose d lot t) i = Some l'
            \<and> current_bid l' = current_bid l \<and> current_bidder_id l' = current_bidder_id l
            \<and> bid_count l' = bid_count l \<and> reserve_met l' = reserve_met l
            \<and> status l' = status l"
  using assms
  by (auto simp: checkSoftClose_def Let_def select_lot_def find_lot_map split: option.splits)

lemma getActiveMaxBid_nonzero: "getActiveMaxBid d l b = Some h \<Longrightarrow> h \<noteq> 0"
  by (auto simp: getActiveMaxBid_def or_null_def truthy_def split: list.splits if_splits option.splits)

lemma highBidderMaxBid_nonzero: "highBidderMaxBid d l lot = Some h \<Longrightarrow> h \<noteq> 0"
  by (auto simp: highBidderMaxBid_def split: option.splits if_splits dest: getActiveMaxBid_nonzero)

lemma placeBid_after_checks:
  assumes "reaches_floor_check d t lotId amt maxBid lot"
  shows "placeBid d t lotId bidderId amt maxBid =
     (let incrementRules = getIncrementRules d lot;
          minBid = minimum_bid lot incrementRules in
      if amt < minBid then (d, (error ''BID_TOO_LOW'')\<lparr> minimumBid := Some minBid \<rparr>)
      else if current_bidder_id lot = Some bidderId then (d, error ''SELF_OUTBID'')
      else (case executeBidTransaction d t lot bidderId amt maxBid
                   (highBidderMaxBid d lotId lot) incrementRules of
              (d', result) \<Rightarrow> (checkSoftClose d' lot t, result)))"
  using assms
  by (auto simp: placeBid_def reaches_floor_check_def Let_def split: option.splits)

lemma executeBidTransaction_overtake:
  assumes "hmax \<noteq> 0" "mx \<noteq> 0" "hmax < mx"
  shows "executeBidTransaction d t lot bidderId amt (Some mx) (Some hmax) rules =
     commit_bid d lot
       [InsertBid (new_bid lot (Some bidderId) (min mx (hmax + calculateBidIncrement (current_bid lot) rules))
                     manual (Some mx) True True bid_winning),
        InsertBid (new_bid lot (current_bidder_id lot) hmax proxy_auto (Some hmax) False False bid_outbid),
        UpdateLotBid (lot_ident lot) (min mx (hmax + calculateBidIncrement (current_bid lot) rules))
          (Some bidderId) 2 t,
        MarkOutbid t (lot_ident lot) (current_bidder_id lot) True,
        createAuditLog proxy_triggered lot (current_bidder_id lot) (Some hmax)
          (Some (current_bid lot)) ''outbid'',
        createAuditLog bid_placed lot (Some bidderId)
          (Some (min mx (hmax + calculateBidIncrement (current_bid lot) rules))) (Some hmax) ''success'']
       True True"
  using assms by (simp add: executeBidTransaction_def or_null_def truthy_def Let_def)

lemma overtake_bids:
  assumes "hb \<noteq> bidderId" "current_bidder_id lot = Some hb"
  shows "bids (transaction d
       [InsertBid (new_bid lot (Some bidderId) nc manual (Some mx) True True bid_winning),
        InsertBid (new_bid lot (current_bidder_id lot) hmax proxy_auto (Some hmax) False False bid_outbid),
        UpdateLotBid (lot_ident lot) nc (Some bidderId) 2 t,
        MarkOutbid t (lot_ident lot) (current_bidder_id lot) True,
        createAuditLog e1 lot b1 n1 p1 c1, createAuditLog e2 lot b2 n2 p2 c2]) =
     map (\<lambda>b. if winning_row_of (lot_ident lot) (Some hb) b then mark_outbid_row t True b else b) (bids d)
     @ [new_bid lot (Some bidderId) nc manual (Some mx) True True bid_winning,
        new_bid lot (Some hb) hmax proxy_auto (Some hmax) False False bid_outbid]"
  using assms
  by (simp add: transaction_def createAuditLog_def winning_row_of_def new_bid_def)

lemma overtake_lot:
  assumes "select_lot d lotId = Some lot"
  shows "select_lot (transaction d
       [InsertBid w, InsertBid p,
        UpdateLotBid (lot_ident lot) nc (Some bidderId) 2 t,
        MarkOutbid t (lot_ident lot) (current_bidder_id lot) True,
        createAuditLog e1 lot b1 n1 p1 c1, createAuditLog e2 lot b2 n2 p2 c2]) lotId
      = Some (update_lot_row nc (Some bidderId) 2 t lot)"
proof -
  have "lot_ident lot = lotId" using assms by (rule select_lot_ident)
  moreover have "\<And>l. lot_ident (update_lot_row nc (Some bidderId) 2 t l) = lot_ident l"
    by (simp add: update_lot_row_def)
  ultimately show ?thesis using assms
    by (simp add: transaction_def createAuditLog_def select_lot_def find_lot_map)
qed

lemma marked_row_inactive:
  assumes "if lot_id b = lotId \<and> bidder_id b = Some hb \<and> is_max_bid_active b
           then is_winning b else True"
  shows "\<not> (lot_id (if winning_row_of lotId (Some hb) b then mark_outbid_row t True b else b) = lotId
            \<and> bidder_id (if winning_row_of lotId (Some hb) b then mark_outbid_row t True b else b) = Some hb
            \<and> is_max_bid_active (if winning_row_of lotId (Some hb) b then mark_outbid_row t True b else b))"
proof (cases "winning_row_of lotId (Some hb) b")
  case True
  then show ?thesis by (simp add: mark_outbid_row_def)
next
  case False
  then show ?thesis using assms by (simp add: winning_row_of_def mark_outbid_row_def split: if_splits)
qed

lemma no_active_after_overtake:
  assumes inv: "list_all (\<lambda>b. if lot_id b = lotId \<and> bidder_id b = Some hb \<and> is_max_bid_active b
                               then is_winning b else True) bs"
    and ne: "hb \<noteq> bidderId"
  shows "filter (\<lambda>b. lot_id b = lotId \<and> bidder_id b = Some hb \<and> is_max_bid_active b)
           (rev (map (\<lambda>b. if winning_row_of lotId (Some hb) b then mark_outbid_row t True b else b) bs
                 @ [new_bid lot (Some bidderId) nc manual (Some mx) True True bid_winning,
                    new_bid lot (Some hb) hmax proxy_auto (Some hmax) False False bid_outbid])) = []"
proof -
  have old: "filter (\<lambda>b. lot_id b = lotId \<and> bidder_id b = Some hb \<and> is_max_bid_active b)
               (map (\<lambda>b. if winning_row_of lotId (Some hb) b then mark_outbid_row t True b else b) bs) = []"
    using inv
  proof (induction bs)
    case Nil
    then show ?case by simp
  next
    case (Cons b bs)
    from Cons.prems have "if lot_id b = lotId \<and> bidder_id b = Some hb \<and> is_max_bid_active b
           then is_winning b else True" by simp
    from marked_row_inactive [OF this, of t] Cons show ?case by simp
  qed
  have new: "filter (\<lambda>b. lot_id b = lotId \<and> bidder_id b = Some hb \<and> is_max_bid_active b)
               [new_bid lot (Some bidderId) nc manual (Some mx) True True bid_winning,
                new_bid lot (Some hb) hmax proxy_auto (Some hmax) False False bid_outbid] = []"
    using ne by (simp add: new_bid_def)
  show ?thesis
    unfolding rev_append rev_filter [symmetric] filter_append
    using old new by (simp add: rev_filter [symmetric])
qed

lemma tier_covers_rule_applies: "tier_covers cb tier = rule_applies cb tier"
  by (simp add: tier_covers_def rule_applies_def)

lemma calculateBidIncrement_find:
  "calculateBidIncrement cb rules =
     (case find (tier_covers cb) rules of None \<Rightarrow> 1 | Some tier \<Rightarrow> increment tier)"
  by (induction rules) (simp_all add: tier_covers_rule_applies)

lemma minimum_bid_min_next_bid:
  assumes "0 \<le> current_bid lot"
    and "min_next_bid (current_bid lot) (starting_bid lot) rules = Some fl"
  shows "minimum_bid lot rules = fl"
  using assms
  by (auto simp: minimum_bid_def min_next_bid_def getMinimumNextBid_def calculateBidIncrement_find
           split: if_splits option.splits)

lemma executeBidTransaction_code:
  "code (snd (executeBidTransaction d t lot b amt mb h rules))
     \<in> {''BID_SUCCESS'', ''MAX_BID_TIED'', ''OUTBID_BY_PROXY''}"
  by (simp add: executeBidTransaction_def commit_bid_def error_def Let_def
           split: option.splits)

lemma executeBidTransaction_minimumBid:
  "minimumBid (snd (executeBidTransaction d t lot b amt mb h rules)) = None"
  by (simp add: executeBidTransaction_def commit_bid_def error_def Let_def
           split: option.splits)

lemma placeBid_floor_code:
  assumes "reaches_floor_check d t lotId amt maxBid lot"
  shows "(code (snd (placeBid d t lotId bidderId amt maxBid)) = ''BID_TOO_LOW'')
           = (amt < minimum_bid lot (getIncrementRules d lot))"
proof -
  have "code (snd (executeBidTransaction d t lot bidderId amt maxBid
                (highBidderMaxBid d lotId lot) (getIncrementRules d lot))) \<noteq> ''BID_TOO_LOW''"
    using executeBidTransaction_code
      [of d t lot bidderId amt maxBid "highBidderMaxBid d lotId lot" "getIncrementRules d lot"]
    by auto
  then show ?thesis
    by (auto simp: placeBid_after_checks [OF assms] Let_def error_def split: prod.splits)
qed

lemma placeBid_floor_minimumBid:
  assumes "reaches_floor_check d t lotId amt maxBid lot"
  shows "minimumBid (snd (placeBid d t lotId bidderId amt maxBid))
           = (if amt < minimum_bid lot (getIncrementRules d lot)
              then Some (minimum_bid lot (getIncrementRules d lot)) else None)"
  using executeBidTransaction_minimumBid
      [of d t lot bidderId amt maxBid "highBidderMaxBid d lotId lot" "getIncrementRules d lot"]
  by (auto simp: placeBid_after_checks [OF assms] Let_def error_def split: prod.splits)

lemma placeBid_too_low:
  assumes "reaches_floor_check d t lotId amt maxBid lot"
    and "amt < minimum_bid lot (getIncrementRules d lot)"
  shows "placeBid d t lotId bidderId amt maxBid
           = (d, (error ''BID_TOO_LOW'')\<lparr> minimumBid := Some (minimum_bid lot (getIncrementRules d lot)) \<rparr>)"
  using assms(2) by (simp add: placeBid_after_checks [OF assms(1)] Let_def)

lemma executeBidTransaction_no_max:
  "executeBidTransaction d t lot bidderId amt maxBid None rules =
     commit_bid d lot
       ([InsertBid (new_bid lot (Some bidderId) amt manual (or_null maxBid) (truthy maxBid)
                      True bid_winning),
         UpdateLotBid (lot_ident lot) amt (Some bidderId) 1 t]
        @ (if truthy_id (current_bidder_id lot)
           then [MarkOutbid t (lot_ident lot) (current_bidder_id lot) False] else [])
        @ [createAuditLog bid_placed lot (Some bidderId) (Some amt) (Some (current_bid lot))
             ''success''])
       False (truthy_id (current_bidder_id lot))"
  by (simp add: executeBidTransaction_def or_null_def truthy_def Let_def)

lemma simple_bid_lot:
  assumes "select_lot d lotId = Some lot"
  shows "select_lot (transaction d
       ([InsertBid w, UpdateLotBid (lot_ident lot) amt (Some bidderId) 1 t]
        @ (if c then [MarkOutbid t (lot_ident lot) hb False] else [])
        @ [createAuditLog e1 lot b1 n1 p1 c1])) lotId
      = Some (update_lot_row amt (Some bidderId) 1 t lot)"
proof -
  have ident: "lot_ident lot = lotId" using assms by (rule select_lot_ident)
  have upd: "\<And>l. lot_ident (update_lot_row amt (Some bidderId) 1 t l) = lot_ident l"
    by (simp add: update_lot_row_def)
  show ?thesis using assms ident upd
    by (cases c) (simp_all add: transaction_def createAuditLog_def select_lot_def find_lot_map)
qed

lemma placeBid_no_max_accepted:
  assumes reach: "reaches_floor_check d t lotId amt maxBid lot"
    and floor: "minimum_bid lot (getIncrementRules d lot) \<le> amt"
    and other: "current_bidder_id lot \<noteq> Some bidderId"
    and nomax: "highBidderMaxBid d lotId lot = None"
  shows "code (snd (placeBid d t lotId bidderId amt maxBid)) = ''BID_SUCCESS''
       \<and> (\<exists>lot'. select_lot (fst (placeBid d t lotId bidderId amt maxBid)) lotId = Some lot'
                \<and> current_bid lot' = amt \<and> current_bidder_id lot' = Some bidderId)"
proof -
  let ?qs = "[InsertBid (new_bid lot (Some bidderId) amt manual (or_null maxBid) (truthy maxBid)
                      True bid_winning),
         UpdateLotBid (lot_ident lot) amt (Some bidderId) 1 t]
        @ (if truthy_id (current_bidder_id lot)
           then [MarkOutbid t (lot_ident lot) (current_bidder_id lot) False] else [])
        @ [createAuditLog bid_placed lot (Some bidderId) (Some amt) (Some (current_bid lot))
             ''success'']"
  have sel: "select_lot d lotId = Some lot"
    using reach by (simp add: reaches_floor_check_def)
  have pb: "placeBid d t lotId bidderId amt maxBid =
          (checkSoftClose (transaction d ?qs) lot t,
           snd (commit_bid d lot ?qs False (truthy_id (current_bidder_id lot))))"
    using floor other nomax
    by (simp add: placeBid_after_checks [OF reach] Let_def executeBidTransaction_no_max
          commit_bid_def)
  have sl: "select_lot (transaction d ?qs) lotId = Some (update_lot_row amt (Some bidderId) 1 t lot)"
    by (rule simple_bid_lot [OF sel])
  from select_lot_checkSoftClose [OF sl, of lot t]
  obtain l' where "select_lot (checkSoftClose (transaction d ?qs) lot t) lotId = Some l'"
      "current_bid l' = current_bid (update_lot_row amt (Some bidderId) 1 t lot)"
      "current_bidder_id l' = current_bidder_id (update_lot_row amt (Some bidderId) 1 t lot)"
    by blast
  then show ?thesis
    unfolding pb by (auto simp: update_lot_row_def commit_bid_def Let_def)
qed

lemma calculateBidIncrement_uncovered:
  "list_all (\<lambda>tier. \<not> tier_covers cb tier) rules \<Longrightarrow> calculateBidIncrement cb rules = 1"
  by (induction rules) (simp_all add: tier_covers_rule_applies)

lemma executeBidTransaction_store_unchanged:
  assumes "code (snd (executeBidTransaction d t lot b amt mb h rules)) \<noteq> ''BID_SUCCESS''"
  shows "fst (executeBidTransaction d t lot b amt mb h rules) = d"
  using assms
  by (simp add: executeBidTransaction_def commit_bid_def error_def Let_def
           split: option.splits if_splits)

lemma placeBid_unsuccessful_bids:
  assumes "code (snd (placeBid d t lotId b amt mb)) \<noteq> ''BID_SUCCESS''"
  shows "bids (fst (placeBid d t lotId b amt mb)) = bids d"
proof (cases "\<exists>lot. reaches_floor_check d t lotId amt mb lot")
  case True
  then obtain lot where reach: "reaches_floor_check d t lotId amt mb lot" by blast
  show ?thesis
    using assms executeBidTransaction_store_unchanged
      [of d t lot b amt mb "highBidderMaxBid d lotId lot" "getIncrementRules d lot"]
    by (auto simp: placeBid_after_checks [OF reach] Let_def split: prod.splits if_splits)
next
  case False
  then show ?thesis
    by (auto simp: placeBid_def reaches_floor_check_def Let_def split: option.splits if_splits)
qed

lemma checkSoftClose_no_rejection_row:
  "filter (\<lambda>e. event_type e = bid_rejected) (bid_audit_log (checkSoftClose d lot t))
     = filter (\<lambda>e. event_type e = bid_rejected) (bid_audit_log d)"
  by (simp add: checkSoftClose_def Let_def split: option.splits)

lemma checkSoftClose_grows_when_extension_covers_window:
  assumes sel: "select_lot d (lot_ident lot) = Some lot"
    and auc: "select_auction d (auction_id lot) = Some a"
    and cover: "soft_close_trigger_minutes a \<le> soft_close_extension_minutes a"
    and close: "current_close_time lot = Some c"
  shows "\<exists>l' c'. select_lot (checkSoftClose d lot t) (lot_ident lot) = Some l'
            \<and> current_close_time l' = Some c' \<and> c \<le> c'"
  using assms
  by (auto simp: checkSoftClose_def Let_def select_lot_def find_lot_map)

lemma process_image_never_conflict:
  "match_status (snd (process_image lm batchId img)) \<noteq> conflict
   \<and> mapping_status (fst (process_image lm batchId img)) \<noteq> conflict"
  by (simp add: process_image_def split: prod.splits option.splits)

lemma process_image_batch: "import_batch_id (fst (process_image lm batchId img)) = batchId"
  by (simp add: process_image_def split: prod.splits option.splits)

lemma processBulkImages_missing_batch:
  assumes "images \<noteq> []" "batchId \<notin> set (map batch_ident (import_batches st))"
  shows "processBulkImages d st auctionId batchId images = (st, Inl DatabaseOperationFailed)"
proof -
  obtain img rest where images: "images = img # rest" using assms(1) by (cases images) auto
  obtain row result where pi: "process_image (lotMap d auctionId) batchId img = (row, result)"
    by (cases "process_image (lotMap d auctionId) batchId img")
  then have "import_batch_id row = batchId"
    using process_image_batch [of "lotMap d auctionId" batchId img] by simp
  then have "insert_image_mapping d st row = Inl DatabaseOperationFailed"
    using assms(2) by (simp add: insert_image_mapping_def)
  then show ?thesis by (simp add: processBulkImages_def images pi)
qed

lemma final_status_without_reserve: "final_status None met = sold"
  by (simp add: final_status_def truthy_def)

lemma calculateBuyersPremium_rate:
  "calculateBuyersPremium amt rules = amt * applicable_rate amt rules"
  by (induction rules) simp_all

lemma invoice_loop_sums:
  "invoice_loop rules te tr sa ls (sub, prem, tx, ship, its) =
     (sub + sum_list (map winning_bid (map (line_item rules te tr sa) ls)),
      prem + sum_list (map buyers_premium_amount (map (line_item rules te tr sa) ls)),
      tx + sum_list (map tax_amount (map (line_item rules te tr sa) ls)),
      ship + sum_list (map shipping_amount (map (line_item rules te tr sa) ls)),
      its @ map (line_item rules te tr sa) ls)"
  by (induction ls arbitrary: sub prem tx ship its) (simp_all add: Let_def algebra_simps)

lemma generateInvoice_sums:
  "generateInvoice ls rules te tr sa =
     \<lparr> subtotal = sum_list (map winning_bid (map (line_item rules te tr sa) ls)),
       buyers_premium = sum_list (map buyers_premium_amount (map (line_item rules te tr sa) ls)),
       tax = sum_list (map tax_amount (map (line_item rules te tr sa) ls)),
       shipping = sum_list (map shipping_amount (map (line_item rules te tr sa) ls)),
       total = sum_list (map winning_bid (map (line_item rules te tr sa) ls))
             + sum_list (map buyers_premium_amount (map (line_item rules te tr sa) ls))
             + sum_list (map tax_amount (map (line_item rules te tr sa) ls))
             + sum_list (map shipping_amount (map (line_item rules te tr sa) ls)),
       line_items = map (line_item rules te tr sa) ls \<rparr>"
  by (simp add: generateInvoice_def invoice_loop_sums)

section \<open>Proxy resolution: the new maximum overtakes the incumbent's\<close>



section \<open>The floor on the next bid\<close>



section \<open>The fallback increment\<close>

text \<open>
  Claim C10.  When no tier of the rules covers the current bid (no tiers at all, or a
  gap between them), \<open>calculateBidIncrement\<close> returns the step 1 and the minimum next
  bid is the current bid plus 1 (the program's sum).  When these rules are the
  effective rules of a lot with a bid, whether stored on the lot or on its auction,
  the engine rejects exactly the amounts below \<open>current_bid + 1\<close> as too low and
  reports that floor; the default tiers play no part.
\<close>

theorem no_tier_fallback_increment:
  assumes uncovered: "list_all (\<lambda>tier. \<not> tier_covers cb tier) rules"
  shows "calculateBidIncrement cb rules = 1
       \<and> getMinimumNextBid cb rules = js_add cb 1
       \<and> (0 < cb \<and> current_bid lot = cb \<and> effective_rules d lot = Some rules
            \<and> reaches_floor_check d t lotId amt maxBid lot \<longrightarrow>
            (code (snd (placeBid d t lotId bidderId amt maxBid)) = ''BID_TOO_LOW'')
              = (amt < js_add cb 1)
            \<and> minimumBid (snd (placeBid d t lotId bidderId amt maxBid))
                = (if amt < js_add cb 1 then Some (js_add cb 1) else None))"
proof -
  have inc: "calculateBidIncrement cb rules = 1"
    using uncovered by (rule calculateBidIncrement_uncovered)
  then have nxt: "getMinimumNextBid cb rules = js_add cb 1"
    by (simp add: getMinimumNextBid_def)
  have engine: "(code (snd (placeBid d t lotId bidderId amt maxBid)) = ''BID_TOO_LOW'')
              = (amt < js_add cb 1)
            \<and> minimumBid (snd (placeBid d t lotId bidderId amt maxBid))
                = (if amt < js_add cb 1 then Some (js_add cb 1) else None)"
    if pos: "0 < cb" and cb: "current_bid lot = cb" and rules: "effective_rules d lot = Some rules"
      and reach: "reaches_floor_check d t lotId amt maxBid lot"
  proof -
    have "getIncrementRules d lot = rules"
      using rules by (rule getIncrementRules_effective)
    then have "minimum_bid lot (getIncrementRules d lot) = js_add cb 1"
      using pos cb nxt by (simp add: minimum_bid_def)
    then show ?thesis
      using placeBid_floor_code [OF reach, of bidderId] placeBid_floor_minimumBid [OF reach, of bidderId]
      by simp
  qed
  from inc nxt engine show ?thesis by blast
qed

text \<open>
  The witness uses the tiers \<open>{0 to 50: 5}, {200+: 25}\<close> at a current bid of 100, once
  stored as the lot's override and once stored on the auction: 100.5 is rejected with
  the floor 101, and 105 is not too low, although the default tiers would ask for 110.
\<close>

theorem no_tier_fallback_increment_witness:
  "list_all (\<lambda>tier. \<not> tier_covers 100 tier) gap_tiers
   \<and> calculateBidIncrement 100 gap_tiers = 1
   \<and> getMinimumNextBid 100 gap_tiers = 101
   \<and> (0::rat) < 100
   \<and> current_bid lot_gap = 100 \<and> effective_rules db_gap lot_gap = Some gap_tiers
   \<and> increment_override lot_gap = JValue gap_tiers
   \<and> reaches_floor_check db_gap 200 2 (1005 / 10) None lot_gap
   \<and> reaches_floor_check db_gap 200 2 105 None lot_gap
   \<and> code (snd (placeBid db_gap 200 2 2 (1005 / 10) None)) = ''BID_TOO_LOW''
   \<and> minimumBid (snd (placeBid db_gap 200 2 2 (1005 / 10) None)) = Some 101
   \<and> code (snd (placeBid db_gap 200 2 2 105 None)) \<noteq> ''BID_TOO_LOW''
   \<and> current_bid lot_gap_auction = 100
   \<and> effective_rules db_gap_auction lot_gap_auction = Some gap_tiers
   \<and> increment_override lot_gap_auction = JNull
   \<and> reaches_floor_check db_gap_auction 200 4 (1005 / 10) None lot_gap_auction
   \<and> reaches_floor_check db_gap_auction 200 4 105 None lot_gap_auction
   \<and> code (snd (placeBid db_gap_auction 200 4 2 (1005 / 10) None)) = ''BID_TOO_LOW''
   \<and> minimumBid (snd (placeBid db_gap_auction 200 4 2 (1005 / 10) None)) = Some 101
   \<and> code (snd (placeBid db_gap_auction 200 4 2 105 None)) \<noteq> ''BID_TOO_LOW''
   \<and> code (snd (placeBid db_gap 200 2 2 105 None)) = ''BID_SUCCESS''
   \<and> code (snd (placeBid db_gap_auction 200 4 2 105 None)) = ''BID_SUCCESS''"
proof -
  have h1: "list_all (\<lambda>tier. \<not> tier_covers 100 tier) gap_tiers" by code_simp
  have h2: "js_add 100 1 = 101" by code_simp
  have h3: "(0::rat) < 100" by simp
  have a1: "current_bid lot_gap = 100" by code_simp
  have a2: "effective_rules db_gap lot_gap = Some gap_tiers" by code_simp
  have a3: "increment_override lot_gap = JValue gap_tiers" by code_simp
  have a4: "reaches_floor_check db_gap 200 2 (1005 / 10) None lot_gap" by code_simp
  have a5: "reaches_floor_check db_gap 200 2 105 None lot_gap" by code_simp
  have b1: "current_bid lot_gap_auction = 100" by code_simp
  have b2: "effective_rules db_gap_auction lot_gap_auction = Some gap_tiers" by code_simp
  have b3: "increment_override lot_gap_auction = JNull" by code_simp
  have b4: "reaches_floor_check db_gap_auction 200 4 (1005 / 10) None lot_gap_auction"
    by code_simp
  have b5: "reaches_floor_check db_gap_auction 200 4 105 None lot_gap_auction" by code_simp
  have e1: "code (snd (placeBid db_gap 200 2 2 105 None)) = ''BID_SUCCESS''" by code_simp
  have e2: "code (snd (placeBid db_gap_auction 200 4 2 105 None)) = ''BID_SUCCESS''"
    by code_simp
  from no_tier_fallback_increment [OF h1, where lot = lot_gap and d = db_gap and t = 200
        and lotId = 2 and amt = "1005 / 10" and maxBid = None and bidderId = 2]
    no_tier_fallback_increment [OF h1, where lot = lot_gap and d = db_gap and t = 200
        and lotId = 2 and amt = 105 and maxBid = None and bidderId = 2]
    no_tier_fallback_increment [OF h1, where lot = lot_gap_auction and d = db_gap_auction
        and t = 200 and lotId = 4 and amt = "1005 / 10" and maxBid = None and bidderId = 2]
    no_tier_fallback_increment [OF h1, where lot = lot_gap_auction and d = db_gap_auction
        and t = 200 and lotId = 4 and amt = 105 and maxBid = None and bidderId = 2]
    h1 h2 h3 a1 a2 a3 a4 a5 b1 b2 b3 b4 b5 e1 e2
  show ?thesis by simp
qed

section \<open>Proxy resolution: the incumbent's maximum defends\<close>

text \<open>
  Claim C1 says that a call which the incumbent's proxy defeats still commits two bid
  rows and the lot update, and returns \<open>OUTBID_BY_PROXY\<close>.  In the scenario "proxy
  defends" (tier \<open>{0+: 10}\<close>, bidder 1 winning at 50 with a maximum of 200, bidder 2
  bids 60 without a maximum) \<open>placeBid\<close> returns \<open>OUTBID_BY_PROXY\<close> with the defended
  amount 70 in the result, and the store it returns is the store it was given: the
  only bid row is still bidder 1's bid of 50, the lot still has \<open>current_bid = 50\<close> and
  \<open>bid_count = 1\<close>, and the audit log still has its single \<open>bid_placed\<close> row.
\<close>

theorem proxy_defence_not_committed:
  "placeBid db_proxy 101 1 2 60 None
     = (db_proxy, (error ''OUTBID_BY_PROXY'')\<lparr> currentBid := Some 70, proxyTriggered := Some True \<rparr>)
   \<and> highBidderMaxBid db_proxy 1 lot_proxy = Some 200
   \<and> select_lot db_proxy 1 = Some lot_proxy
   \<and> current_bid lot_proxy = 50 \<and> current_bidder_id lot_proxy = Some 1 \<and> bid_count lot_proxy = 1
   \<and> map (\<lambda>b. (bidder_id b, amount b, bid_type b, is_winning b)) (bids db_proxy)
        = [(Some 1, 50, manual, True)]
   \<and> map event_type (bid_audit_log db_proxy) = [bid_placed]"
  by code_simp

section \<open>Rejected bids\<close>

text \<open>
  Claim C2 says that a rejected call writes exactly one \<open>bid_rejected\<close> audit row and
  changes nothing else, in particular not the close time.  On the store of the
  previous scenario, at second 9800 (200 s before the close, inside the trigger window
  of 5 min): a bid of 55 is rejected with \<open>BID_TOO_LOW\<close> (floor 60) and the store is
  returned as it was, without any audit row; a bid of 100 with a maximum of 200 is
  rejected with \<open>MAX_BID_TIED\<close>, no \<open>bid_rejected\<close> row is written, and the soft close
  runs all the same: a \<open>soft_close_triggered\<close> row is logged, the close time moves
  from 10000 to 10100 and the extension count becomes 1.
\<close>

theorem rejection_writes_no_audit_row:
  "placeBid db_proxy 9800 1 4 55 None
     = (db_proxy, (error ''BID_TOO_LOW'')\<lparr> minimumBid := Some 60 \<rparr>)
   \<and> code (snd (placeBid db_proxy 9800 1 4 100 (Some 200))) = ''MAX_BID_TIED''
   \<and> filter (\<lambda>e. event_type e = bid_rejected)
        (bid_audit_log (fst (placeBid db_proxy 9800 1 4 100 (Some 200)))) = []
   \<and> map event_type (bid_audit_log (fst (placeBid db_proxy 9800 1 4 100 (Some 200))))
        = [bid_placed, soft_close_triggered]
   \<and> map_option current_close_time (select_lot db_proxy 1) = Some (Some 10000)
   \<and> map_option current_close_time
        (select_lot (fst (placeBid db_proxy 9800 1 4 100 (Some 200))) 1) = Some (Some 10100)
   \<and> map_option extension_count
        (select_lot (fst (placeBid db_proxy 9800 1 4 100 (Some 200))) 1) = Some 1"
  by code_simp

section \<open>Soft close\<close>

text \<open>
  Claim C5 says that \<open>current_close_at\<close> never decreases and stays at or above
  \<open>original_close_at\<close>.  With a trigger window of 10 min and an extension of 2 min, an
  accepted bid 480 s before the close at 10000 sets the close time to
  \<open>9520 + 120 = 9640\<close>, below both its previous value and the original close time.
\<close>

theorem soft_close_moves_close_time_back:
  "code (snd (placeBid db_floor 9520 2 2 110 None)) = ''BID_SUCCESS''
   \<and> map_option original_close_time (select_lot db_floor 2) = Some (Some 10000)
   \<and> map_option current_close_time (select_lot db_floor 2) = Some (Some 10000)
   \<and> map_option current_close_time (select_lot (fst (placeBid db_floor 9520 2 2 110 None)) 2)
        = Some (Some 9640)
   \<and> map_option original_close_time (select_lot (fst (placeBid db_floor 9520 2 2 110 None)) 2)
        = Some (Some 10000)"
  by code_simp

section \<open>Final status of a closed lot\<close>

text \<open>
  Claim C6 says that a closed lot is \<open>sold\<close> only if it has a high bidder, and that a
  lot without bids closes as \<open>unsold\<close>.  The active lot of the fresh store has no
  reserve, no bidder and no bid rows; \<open>closeLot\<close> gives it the status \<open>sold\<close>, and so
  does the loop of the auction route.
\<close>

theorem lot_without_bids_closes_sold:
  "select_lot db_fresh 1 = Some lot_fresh
   \<and> current_bidder_id lot_fresh = None \<and> bid_count lot_fresh = 0 \<and> bids db_fresh = []
   \<and> map_option status (select_lot (closeLot db_fresh 10000 1) 1) = Some sold
   \<and> map_option status (select_lot (close_route_lots db_fresh 10000 1) 1) = Some sold"
  by code_simp

section \<open>Closing a lot twice\<close>

text \<open>
  Claim C7 says that \<open>closeLot\<close> on a lot that is no longer active does nothing, and
  that the \<open>lot_closed\<close> audit row is written once per lot.  After a first \<open>closeLot\<close>
  the lot is \<open>sold\<close>; a second call 50 s later changes the store again: it writes a
  second \<open>lot_closed\<close> row and moves \<open>closed_at\<close> from 10000 to 10050.  The loop of the
  auction route, which selects active lots only, leaves the store as it is when run
  a second time.
\<close>

theorem closeLot_twice_differs:
  "map_option status (select_lot (closeLot db_proxy 10000 1) 1) = Some sold
   \<and> closeLot (closeLot db_proxy 10000 1) 10050 1 \<noteq> closeLot db_proxy 10000 1
   \<and> map event_type (bid_audit_log (closeLot db_proxy 10000 1)) = [bid_placed, lot_closed]
   \<and> map event_type (bid_audit_log (closeLot (closeLot db_proxy 10000 1) 10050 1))
        = [bid_placed, lot_closed, lot_closed]
   \<and> map_option closed_at (select_lot (closeLot db_proxy 10000 1) 1) = Some (Some 10000)
   \<and> map_option closed_at (select_lot (closeLot (closeLot db_proxy 10000 1) 10050 1) 1)
        = Some (Some 10050)
   \<and> close_route_lots (close_route_lots db_proxy 10000 1) 10050 1
        = close_route_lots db_proxy 10000 1"
  by code_simp

section \<open>Invoice amounts\<close>

text \<open>
  Claim C8 as stated says that premium and tax amounts are rounded half-up to cents.
  In the invoice scenario (winning bids 100.00 and 250.55, premium 15 %, no tax) the
  second premium amount is 37.5825, which differs from its rounding 37.58, and the
  invoice total is 403.1325, not 403.13.
\<close>

theorem invoice_amounts_not_rounded:
  "map buyers_premium_amount (line_items (generateInvoice scenario_lots premium15 False 0 False))
     = [15, 375825 / 10000]
   \<and> round_half_up_cents (25055 / 100 * (15 / 100)) = 3758 / 100
   \<and> (375825 / 10000 :: rat) \<noteq> round_half_up_cents (25055 / 100 * (15 / 100))
   \<and> total (generateInvoice scenario_lots premium15 False 0 False) = 4031325 / 10000
   \<and> total (generateInvoice scenario_lots premium15 False 0 False) \<noteq> 40313 / 100"
  by code_simp

text \<open>
  Claim C8, amended.  \<open>generateInvoice\<close> writes one line item per winning lot, in order.
  The premium rate of an item is the rate of the first premium tier that covers the
  winning bid (0 if none), its premium amount is the winning bid times that rate, its
  tax amount is (winning bid + premium amount) times the tax rate when tax is enabled
  and 0 otherwise, and its shipping amount is 0; no amount is rounded.  The invoice's
  subtotal, premium, tax and shipping are the sums of the item amounts and
  \<open>total = subtotal + premium + tax + shipping\<close> holds exactly.  In the scenario
  the premium amounts are 15 and 37.5825 and the total is 403.1325.
\<close>

theorem invoice_amounts_exact:
  "line_items (generateInvoice ls rules taxEnabled taxRate shippingAvailable)
     = map (line_item rules taxEnabled taxRate shippingAvailable) ls
   \<and> winning_bid (line_item rules taxEnabled taxRate shippingAvailable lot) = win_current_bid lot
   \<and> buyers_premium_rate (line_item rules taxEnabled taxRate shippingAvailable lot)
       = applicable_rate (win_current_bid lot) rules
   \<and> buyers_premium_amount (line_item rules taxEnabled taxRate shippingAvailable lot)
       = win_current_bid lot * applicable_rate (win_current_bid lot) rules
   \<and> tax_amount (line_item rules taxEnabled taxRate shippingAvailable lot)
       = (if taxEnabled
          then (win_current_bid lot + win_current_bid lot * applicable_rate (win_current_bid lot) rules)
               * taxRate
          else 0)
   \<and> shipping_amount (line_item rules taxEnabled taxRate shippingAvailable lot) = 0
   \<and> subtotal (generateInvoice ls rules taxEnabled taxRate shippingAvailable)
       = sum_list (map winning_bid
           (line_items (generateInvoice ls rules taxEnabled taxRate shippingAvailable)))
   \<and> buyers_premium (generateInvoice ls rules taxEnabled taxRate shippingAvailable)
       = sum_list (map buyers_premium_amount
           (line_items (generateInvoice ls rules taxEnabled taxRate shippingAvailable)))
   \<and> tax (generateInvoice ls rules taxEnabled taxRate shippingAvailable)
       = sum_list (map tax_amount
           (line_items (generateInvoice ls rules taxEnabled taxRate shippingAvailable)))
   \<and> shipping (generateInvoice ls rules taxEnabled taxRate shippingAvailable)
       = sum_list (map shipping_amount
           (line_items (generateInvoice ls rules taxEnabled taxRate shippingAvailable)))
   \<and> total (generateInvoice ls rules taxEnabled taxRate shippingAvailable)
       = subtotal (generateInvoice ls rules taxEnabled taxRate shippingAvailable)
         + buyers_premium (generateInvoice ls rules taxEnabled taxRate shippingAvailable)
         + tax (generateInvoice ls rules taxEnabled taxRate shippingAvailable)
         + shipping (generateInvoice ls rules taxEnabled taxRate shippingAvailable)
   \<and> map buyers_premium_amount
        (line_items (generateInvoice scenario_lots premium15 False 0 False))
       = [15, 375825 / 10000]
   \<and> total (generateInvoice scenario_lots premium15 False 0 False) = 4031325 / 10000"
proof -
  have ex: "map buyers_premium_amount
        (line_items (generateInvoice scenario_lots premium15 False 0 False))
       = [15, 375825 / 10000]
   \<and> total (generateInvoice scenario_lots premium15 False 0 False) = 4031325 / 10000"
    by code_simp
  have item: "winning_bid (line_item rules taxEnabled taxRate shippingAvailable lot) = win_current_bid lot
   \<and> buyers_premium_rate (line_item rules taxEnabled taxRate shippingAvailable lot)
       = applicable_rate (win_current_bid lot) rules
   \<and> buyers_premium_amount (line_item rules taxEnabled taxRate shippingAvailable lot)
       = win_current_bid lot * applicable_rate (win_current_bid lot) rules
   \<and> tax_amount (line_item rules taxEnabled taxRate shippingAvailable lot)
       = (if taxEnabled
          then (win_current_bid lot + win_current_bid lot * applicable_rate (win_current_bid lot) rules)
               * taxRate
          else 0)
   \<and> shipping_amount (line_item rules taxEnabled taxRate shippingAvailable lot) = 0"
    by (simp add: line_item_def Let_def calculateBuyersPremium_rate)
  have sums: "line_items (generateInvoice ls rules taxEnabled taxRate shippingAvailable)
     = map (line_item rules taxEnabled taxRate shippingAvailable) ls
   \<and> subtotal (generateInvoice ls rules taxEnabled taxRate shippingAvailable)
       = sum_list (map winning_bid
           (line_items (generateInvoice ls rules taxEnabled taxRate shippingAvailable)))
   \<and> buyers_premium (generateInvoice ls rules taxEnabled taxRate shippingAvailable)
       = sum_list (map buyers_premium_amount
           (line_items (generateInvoice ls rules taxEnabled taxRate shippingAvailable)))
   \<and> tax (generateInvoice ls rules taxEnabled taxRate shippingAvailable)
       = sum_list (map tax_amount
           (line_items (generateInvoice ls rules taxEnabled taxRate shippingAvailable)))
   \<and> shipping (generateInvoice ls rules taxEnabled taxRate shippingAvailable)
       = sum_list (map shipping_amount
           (line_items (generateInvoice ls rules taxEnabled taxRate shippingAvailable)))
   \<and> total (generateInvoice ls rules taxEnabled taxRate shippingAvailable)
       = subtotal (generateInvoice ls rules taxEnabled taxRate shippingAvailable)
         + buyers_premium (generateInvoice ls rules taxEnabled taxRate shippingAvailable)
         + tax (generateInvoice ls rules taxEnabled taxRate shippingAvailable)
         + shipping (generateInvoice ls rules taxEnabled taxRate shippingAvailable)"
    by (simp add: generateInvoice_sums)
  from sums item ex show ?thesis by blast
qed

section \<open>Two images for one photo slot\<close>

text \<open>
  Claim C9 says that of two uploads that target the same (lot, photo order) pair the
  first is recorded as \<open>matched\<close> and the second gets the status \<open>conflict\<close>.  For the
  uploads \<open>12-1.jpg\<close>, \<open>lot_12_2.PNG\<close>, \<open>12.3.webp\<close>, \<open>foo.jpg\<close>, \<open>12-1.jpg\<close> with
  lot number 12 in the auction, \<open>processBulkImages\<close> fails at its first insert: the
  mapping row refers to a batch whose row is written only after the loop.  The call
  throws, no mapping is recorded and no outcome is returned.
\<close>

theorem bulk_images_first_insert_fails:
  "processBulkImages db_fresh import_fresh 1 ''3f2b8c1e-0d4a-4e6b-9a57-1c2d3e4f5a6b'' scenario_images
     = (import_fresh, Inl DatabaseOperationFailed)
   \<and> lotMap db_fresh 1 12 = Some 1
   \<and> image_mappings import_fresh = [] \<and> import_batches import_fresh = []"
  by code_simp

end
